theory Spec2Isabelle
  imports
    Complex_Main
    "HOL-Library.AList"
    "HOL-Library.Char_ord"
    "HOL-Library.List_Lexorder"
    "HOL-Library.Product_Lexorder"
begin

section \<open>The FAO table\<close>

text \<open>
  One row of \<^verbatim>\<open>fao.csv\<close> as pandas reads it. The columns keep their names.
  \<^verbatim>\<open>Value\<close> is \<open>None\<close> where the cell is empty or does not parse as a number
  (\<^verbatim>\<open>pd.to_numeric(..., errors='coerce')\<close> turns it into NaN, \<^verbatim>\<open>dropna\<close> and
  \<^verbatim>\<open>pd.isna\<close> test for it). A numeric cell is the real number that its text
  denotes; the rounding of the mantissa in binary floating point is not
  modelled. The sums of a column are floats with overflow, infinities and NaN
  (\<open>float64\<close> below).
\<close>

record observation =
  Area :: string
  Item :: string
  Element :: string
  Year :: int
  Unit :: string
  Value :: "real option"

type_synonym dataframe = "observation list"

definition pd_notna :: "real option \<Rightarrow> bool" where
  "pd_notna v = (v \<noteq> None)"

text \<open>\<^verbatim>\<open>float(row['Value']) if pd.notna(row['Value']) else 0.0\<close>\<close>

definition float_or_zero :: "real option \<Rightarrow> real" where
  "float_or_zero v = (case v of Some x \<Rightarrow> x | None \<Rightarrow> 0)"

text \<open>\<^verbatim>\<open>df.dropna(subset=['Value'])\<close>\<close>

definition dropna_Value :: "dataframe \<Rightarrow> dataframe" where
  "dropna_Value df = filter (\<lambda>r. pd_notna (Value r)) df"

subsection \<open>Floats\<close>

text \<open>
  A double as the sums hold it: a finite number, an infinity or NaN. A result
  whose magnitude reaches \<open>2^1024 - 2^970\<close> (half an ulp above the largest double)
  is rounded to an infinity, as IEEE 754 does to nearest; below that bound the
  exact result is kept (the rounding of the mantissa is not modelled). The
  bound is written out in decimal digits.
\<close>

datatype float64 = Finite real | PosInf | NegInf | NaN

definition overflow_bound :: real where
  "overflow_bound =
     179769313486231580793728971405303415079934132710037826936173778980444968292764750946649017977587207096330286416692887910946555547851940402630657488671505820681908902000708383676273854845817711531764475730270069855571366959622842914819860834936475292719074168444365510704342711559699508093042880177904174497792"

definition fl :: "real \<Rightarrow> float64" where
  "fl x = (if x \<ge> overflow_bound then PosInf
          else if x \<le> - overflow_bound then NegInf
          else Finite x)"

fun fl_add :: "float64 \<Rightarrow> float64 \<Rightarrow> float64" where
  "fl_add (Finite x) (Finite y) = fl (x + y)"
| "fl_add NaN b = NaN"
| "fl_add a NaN = NaN"
| "fl_add PosInf NegInf = NaN"
| "fl_add NegInf PosInf = NaN"
| "fl_add PosInf b = PosInf"
| "fl_add a PosInf = PosInf"
| "fl_add NegInf b = NegInf"
| "fl_add a NegInf = NegInf"

fun fl_neg :: "float64 \<Rightarrow> float64" where
  "fl_neg (Finite x) = Finite (- x)"
| "fl_neg PosInf = NegInf"
| "fl_neg NegInf = PosInf"
| "fl_neg NaN = NaN"

definition fl_sub :: "float64 \<Rightarrow> float64 \<Rightarrow> float64" where
  "fl_sub a b = fl_add a (fl_neg b)"

text \<open>\<^verbatim>\<open>a > b\<close>: false when one side is NaN.\<close>

fun fl_gt :: "float64 \<Rightarrow> float64 \<Rightarrow> bool" where
  "fl_gt (Finite x) (Finite y) = (x > y)"
| "fl_gt NaN b = False"
| "fl_gt a NaN = False"
| "fl_gt PosInf PosInf = False"
| "fl_gt PosInf b = True"
| "fl_gt a PosInf = False"
| "fl_gt NegInf b = False"
| "fl_gt a NegInf = True"

text \<open>
  The double of a cell: NaN for a cell without a number, and an infinity for a
  numeral beyond the range of the doubles (the parser reads \<^verbatim>\<open>1e400\<close> as \<^verbatim>\<open>inf\<close>).
\<close>

definition cell_float :: "real option \<Rightarrow> float64" where
  "cell_float v = (case v of Some x \<Rightarrow> fl x | None \<Rightarrow> NaN)"

text \<open>\<^verbatim>\<open>pd.notna\<close> of a float, and \<^verbatim>\<open>float(x) if pd.notna(x) else 0.0\<close>.\<close>

definition notna_float :: "float64 \<Rightarrow> bool" where
  "notna_float x = (x \<noteq> NaN)"

definition float_or_zero_float :: "float64 \<Rightarrow> float64" where
  "float_or_zero_float x = (if notna_float x then x else Finite 0)"

text \<open>
  \<^verbatim>\<open>Series.sum()\<close> skips the NaN cells (\<^verbatim>\<open>skipna=True\<close>) and gives \<open>0.0\<close> for an empty
  series. The other cells are added as doubles, here from the first to the
  last: a sum can overflow to an infinity, and an infinity of each sign gives
  NaN, the case the callers test with \<^verbatim>\<open>pd.notna\<close>. (pandas may add a long
  column in another order; the order matters only where a partial sum
  overflows.)
\<close>

definition pd_sum :: "real option list \<Rightarrow> float64" where
  "pd_sum vs = fold (\<lambda>v acc. fl_add acc (cell_float v)) (filter pd_notna vs) (Finite 0)"

subsection \<open>Grouping and selection\<close>

text \<open>
  \<^verbatim>\<open>groupby\<close> iterates over the distinct keys in ascending order and keeps the
  rows of each group in table order; \<^verbatim>\<open>unique()\<close> keeps the order of first
  appearance.
\<close>

definition groupby_keys :: "('a \<Rightarrow> 'k::linorder) \<Rightarrow> 'a list \<Rightarrow> 'k list" where
  "groupby_keys key df = sort (remdups (map key df))"

definition group_rows :: "('a \<Rightarrow> 'k) \<Rightarrow> 'k \<Rightarrow> 'a list \<Rightarrow> 'a list" where
  "group_rows key k df = filter (\<lambda>r. key r = k) df"

definition unique :: "'a list \<Rightarrow> 'a list" where
  "unique xs = rev (remdups (rev xs))"

text \<open>
  \<^verbatim>\<open>nlargest(n, 'Value')\<close> with the default \<^verbatim>\<open>keep='first'\<close>: descending by value,
  rows of equal value in table order, the first \<open>n\<close> of them.
\<close>

definition nlargest :: "nat \<Rightarrow> ('a \<Rightarrow> real) \<Rightarrow> 'a list \<Rightarrow> 'a list" where
  "nlargest n val df = take n (sort_key (\<lambda>r. - val r) df)"

subsection \<open>Strings\<close>

text \<open>\<^verbatim>\<open>str.lower()\<close> on the ASCII letters.\<close>

definition char_lower :: "char \<Rightarrow> char" where
  "char_lower c =
     (if CHR ''A'' \<le> c \<and> c \<le> CHR ''Z'' then char_of (of_char c + (32::nat)) else c)"

definition str_lower :: "string \<Rightarrow> string" where
  "str_lower s = map char_lower s"

fun startswith :: "string \<Rightarrow> string \<Rightarrow> bool" where
  "startswith s [] = True"
| "startswith [] (p # ps) = False"
| "startswith (c # cs) (p # ps) = (c = p \<and> startswith cs ps)"

text \<open>\<^verbatim>\<open>str.contains(pat)\<close> for a pattern without regular-expression operators.\<close>

fun str_contains :: "string \<Rightarrow> string \<Rightarrow> bool" where
  "str_contains [] pat = (pat = [])"
| "str_contains (c # cs) pat = (startswith (c # cs) pat \<or> str_contains cs pat)"

text \<open>\<^verbatim>\<open>str.replace(' ', '_')\<close>\<close>

definition replace_space :: "string \<Rightarrow> string" where
  "replace_space s = map (\<lambda>c. if c = CHR '' '' then CHR ''_'' else c) s"

section \<open>\<^verbatim>\<open>parse_enhanced.py\<close>\<close>

definition AGGREGATE_AREAS :: "string set" where
  "AGGREGATE_AREAS = {
     ''World'', ''Africa'', ''Americas'', ''Asia'', ''Europe'', ''Oceania'',
     ''Eastern Africa'', ''Middle Africa'', ''Northern Africa'', ''Southern Africa'',
     ''Western Africa'', ''Eastern Asia'', ''South-eastern Asia'', ''Southern Asia'',
     ''Western Asia'', ''Central America'', ''South America'', ''Northern America'',
     ''Eastern Europe'', ''Northern Europe'', ''Southern Europe'', ''Western Europe'',
     ''European Union'', ''European Union (27)'', ''European Union (28)'',
     ''Land Locked Developing Countries'', ''Least Developed Countries'',
     ''Low Income Food Deficit Countries'', ''Net Food Importing Developing Countries'',
     ''Small Island Developing States''}"

definition kcal_element :: string where
  "kcal_element = ''Food supply (kcal/capita/day)''"

definition relevant_elements :: "string list" where
  "relevant_elements = [
     ''Import quantity'', ''Export quantity'', ''Production'',
     ''Domestic supply quantity'', ''Feed'',
     ''Protein supply quantity (t)'', ''Protein supply quantity (g/capita/day)'',
     ''Fat supply quantity (t)'', ''Fat supply quantity (g/capita/day)'',
     ''Processing'']"

subsection \<open>\<^verbatim>\<open>load_and_filter_data\<close>\<close>

text \<open>Step 1: \<^verbatim>\<open>self.df = self.df[~self.df["Area"].isin(AGGREGATE_AREAS)]\<close>\<close>

definition remove_aggregate_areas :: "dataframe \<Rightarrow> dataframe" where
  "remove_aggregate_areas df = filter (\<lambda>r. Area r \<notin> AGGREGATE_AREAS) df"

definition year_in_range :: "observation \<Rightarrow> bool" where
  "year_in_range r = (Year r \<ge> 2010 \<and> Year r \<le> 2022)"

text \<open>\<^verbatim>\<open>self.kcal_df\<close>: the calorie rows of the cleaned table, NaN values dropped.\<close>

definition load_kcal_df :: "dataframe \<Rightarrow> dataframe" where
  "load_kcal_df raw =
     dropna_Value
       (filter (\<lambda>r. year_in_range r \<and> Element r = kcal_element)
          (remove_aggregate_areas raw))"

text \<open>\<^verbatim>\<open>self.filtered_df\<close>\<close>

definition load_filtered_df :: "dataframe \<Rightarrow> dataframe" where
  "load_filtered_df raw =
     dropna_Value
       (filter (\<lambda>r. year_in_range r \<and>
                    Element r \<in> set relevant_elements \<and>
                    \<not> str_contains (str_lower (Item r)) ''alcohol'' \<and>
                    \<not> str_contains (str_lower (Item r)) ''non-food'')
          (remove_aggregate_areas raw))"

subsection \<open>\<^verbatim>\<open>_normalize_element_name\<close>\<close>

definition element_mapping :: "(string \<times> string) list" where
  "element_mapping = [
     (''Import quantity'', ''imports''),
     (''Export quantity'', ''exports''),
     (''Production'', ''production''),
     (''Domestic supply quantity'', ''domestic_supply''),
     (''Feed'', ''feed''),
     (''Protein supply quantity (t)'', ''protein''),
     (''Protein supply quantity (g/capita/day)'', ''protein_gpcd''),
     (''Fat supply quantity (t)'', ''fat''),
     (''Fat supply quantity (g/capita/day)'', ''fat_gpcd''),
     (''Processing'', ''processing'')]"

definition normalize_element_name :: "string \<Rightarrow> string" where
  "normalize_element_name element =
     (case map_of element_mapping element of
        Some k \<Rightarrow> k
      | None \<Rightarrow> replace_space (str_lower element))"

subsection \<open>\<^verbatim>\<open>create_country_timeseries\<close>\<close>

text \<open>
  A year's dictionary: the \<^verbatim>\<open>year\<close> entry and the metric entries in insertion
  order. Assigning to a key that is present replaces its value in place, a
  new key goes to the end (\<open>AList.update\<close>). The \<^verbatim>\<open>year\<close> entry is a field of its
  own: no element of the allow-list is normalized to the key \<^verbatim>\<open>year\<close>.
\<close>

record year_record =
  year :: int
  metrics :: "(string \<times> real) list"

record timeseries_record =
  country :: string
  item :: string
  unit :: string
  data :: "year_record list"

definition mass_elements_kt :: "string list" where
  "mass_elements_kt = [
     ''Production'', ''Import quantity'', ''Export quantity'',
     ''Domestic supply quantity'', ''Feed'', ''Processing'']"

text \<open>The value the row loop stores for a row (lines 213 to 226).\<close>

definition scaled_value :: "observation \<Rightarrow> real" where
  "scaled_value r =
     (let raw_val = float_or_zero (Value r)
      in if Element r \<in> set mass_elements_kt then raw_val * 1000 else raw_val)"

definition add_row :: "observation \<Rightarrow> (string \<times> real) list \<Rightarrow> (string \<times> real) list" where
  "add_row r year_data =
     AList.update (normalize_element_name (Element r)) (scaled_value r) year_data"

text \<open>\<^verbatim>\<open>kcal_lookup\<close>: a later row of the same key overwrites an earlier one.\<close>

definition make_kcal_lookup ::
  "dataframe \<Rightarrow> (string \<times> string \<times> int) \<rightharpoonup> real option" where
  "make_kcal_lookup kcal_df =
     fold (\<lambda>r m. m((Area r, Item r, Year r) \<mapsto> Value r)) kcal_df Map.empty"

definition build_year ::
  "((string \<times> string \<times> int) \<rightharpoonup> real option) \<Rightarrow> string \<Rightarrow> string \<Rightarrow> int \<Rightarrow>
   dataframe \<Rightarrow> year_record" where
  "build_year kcal_lookup c i y year_group =
     (let year_data = fold add_row year_group []
      in \<lparr>year = y,
          metrics =
            (case kcal_lookup (c, i, y) of
               Some kcal_value \<Rightarrow>
                 AList.update ''food_supply_kcal'' (float_or_zero kcal_value) year_data
             | None \<Rightarrow> year_data)\<rparr>)"

definition build_entry ::
  "((string \<times> string \<times> int) \<rightharpoonup> real option) \<Rightarrow> dataframe \<Rightarrow> string \<times> string \<Rightarrow>
   timeseries_record" where
  "build_entry kcal_lookup filtered_df k =
     (let grp = group_rows (\<lambda>r. (Area r, Item r)) k filtered_df
      in \<lparr>country = fst k, item = snd k, unit = ''t'',
          data = sort_key year
            (map (\<lambda>y. build_year kcal_lookup (fst k) (snd k) y (group_rows Year y grp))
               (groupby_keys Year grp))\<rparr>)"

definition create_country_timeseries :: "dataframe \<Rightarrow> dataframe \<Rightarrow> timeseries_record list" where
  "create_country_timeseries filtered_df kcal_df =
     map (build_entry (make_kcal_lookup kcal_df) filtered_df)
       (groupby_keys (\<lambda>r. (Area r, Item r)) filtered_df)"

text \<open>The timeseries output of a run on the raw table.\<close>

definition timeseries_output :: "dataframe \<Rightarrow> timeseries_record list" where
  "timeseries_output raw = create_country_timeseries (load_filtered_df raw) (load_kcal_df raw)"

subsection \<open>\<^verbatim>\<open>create_production_rankings\<close>\<close>

text \<open>The numeric value of a row of the filtered table (no NaN is left there).\<close>

definition num_value :: "observation \<Rightarrow> real" where
  "num_value r = float_or_zero (Value r)"

text \<open>\<^verbatim>\<open>str(group['Unit'].iloc[0]) if len(group) > 0 else "1000 t"\<close>\<close>

definition first_unit :: "dataframe \<Rightarrow> string" where
  "first_unit grp = (case grp of [] \<Rightarrow> ''1000 t'' | r # _ \<Rightarrow> Unit r)"

record producer =
  producer_country :: string
  production :: real
  rank :: nat

record item_ranking =
  ranking_item :: string
  ranking_unit :: string
  ranking_year :: int
  producers :: "producer list"

text \<open>The loop appends one producer per row; the rank is the length so far plus one.\<close>

definition add_producer :: "observation \<Rightarrow> producer list \<Rightarrow> producer list" where
  "add_producer row ps =
     ps @ [\<lparr>producer_country = Area row, production = float_or_zero (Value row),
            rank = length ps + 1\<rparr>]"

definition create_production_rankings :: "dataframe \<Rightarrow> item_ranking list" where
  "create_production_rankings filtered_df =
     (let production_2022 =
            filter (\<lambda>r. Element r = ''Production'' \<and> Year r = 2022) filtered_df
      in map (\<lambda>i.
            let grp = group_rows Item i production_2022;
                top_producers = nlargest 20 num_value grp
            in \<lparr>ranking_item = i, ranking_unit = first_unit grp, ranking_year = 2022,
                producers = fold add_producer top_producers []\<rparr>)
          (groupby_keys Item production_2022))"

subsection \<open>\<^verbatim>\<open>create_trade_balance\<close>\<close>

record trade_balance_entry =
  tb_country :: string
  tb_item :: string
  tb_year :: int
  tb_unit :: string
  tb_imports :: float64
  tb_exports :: float64
  trade_balance :: float64
  net_importer :: "bool option"

text \<open>
  The entry of one \<open>(country, item, year)\<close> group. \<open>imports\<close> and \<open>exports\<close> are
  the two sums as pandas returns them; each field keeps the source's
  \<^verbatim>\<open>pd.notna\<close> test, with its fallback \<open>0.0\<close> or \<^verbatim>\<open>None\<close>.
\<close>

definition trade_entry :: "string \<times> string \<times> int \<Rightarrow> dataframe \<Rightarrow> trade_balance_entry" where
  "trade_entry k grp =
     (let imports = pd_sum (map Value (filter (\<lambda>r. Element r = ''Import quantity'') grp));
          exports = pd_sum (map Value (filter (\<lambda>r. Element r = ''Export quantity'') grp))
      in \<lparr>tb_country = fst k, tb_item = fst (snd k), tb_year = snd (snd k),
          tb_unit = first_unit grp,
          tb_imports = (if notna_float imports then imports else Finite 0),
          tb_exports = (if notna_float exports then exports else Finite 0),
          trade_balance =
            (if notna_float exports \<and> notna_float imports then fl_sub exports imports
             else Finite 0),
          net_importer =
            (if notna_float imports \<and> notna_float exports then Some (fl_gt imports exports)
             else None)\<rparr>)"

definition create_trade_balance :: "dataframe \<Rightarrow> trade_balance_entry list" where
  "create_trade_balance filtered_df =
     (let trade_data =
            filter (\<lambda>r. Element r \<in> set [''Import quantity'', ''Export quantity'']) filtered_df
      in map (\<lambda>k. trade_entry k (group_rows (\<lambda>r. (Area r, Item r, Year r)) k trade_data))
           (groupby_keys (\<lambda>r. (Area r, Item r, Year r)) trade_data))"

subsection \<open>\<^verbatim>\<open>create_aggregated_summaries\<close>\<close>

record year_totals =
  totals_year :: int
  totals :: "(string \<times> float64) list"

record summary_data =
  global_yearly_totals :: "year_totals list"
  top_producing_countries :: "(string \<times> float64) list"
  top_produced_items :: "(string \<times> float64) list"

definition year_summary :: "dataframe \<Rightarrow> int \<Rightarrow> year_totals" where
  "year_summary filtered_df y =
     (let year_data = filter (\<lambda>r. Year r = y) filtered_df
      in \<lparr>totals_year = y,
          totals =
            fold (\<lambda>element summ.
                    let total_value =
                          pd_sum (map Value (filter (\<lambda>r. Element r = element) year_data))
                    in AList.update (normalize_element_name element)
                         (float_or_zero_float total_value) summ)
              [''Production'', ''Import quantity'', ''Export quantity'',
               ''Domestic supply quantity'']
              []\<rparr>)"

text \<open>
  \<^verbatim>\<open>nlargest\<close> of a series of sums: descending, \<open>+inf\<close> first and NaN last, sums
  that are equal in the order of the series.
\<close>

fun descending_key :: "float64 \<Rightarrow> nat \<times> real" where
  "descending_key PosInf = (0, 0)"
| "descending_key (Finite x) = (1, - x)"
| "descending_key NegInf = (2, 0)"
| "descending_key NaN = (3, 0)"

definition nlargest_sums :: "nat \<Rightarrow> ('a \<times> float64) list \<Rightarrow> ('a \<times> float64) list" where
  "nlargest_sums n series = take n (sort_key (\<lambda>p. descending_key (snd p)) series)"

text \<open>\<^verbatim>\<open>df[df['Element'] == 'Production'].groupby(col)['Value'].sum().nlargest(30)\<close>\<close>

definition production_totals ::
  "(observation \<Rightarrow> string) \<Rightarrow> dataframe \<Rightarrow> (string \<times> float64) list" where
  "production_totals col filtered_df =
     (let prod = filter (\<lambda>r. Element r = ''Production'') filtered_df
      in nlargest_sums 30
           (map (\<lambda>k. (k, pd_sum (map Value (group_rows col k prod))))
              (groupby_keys col prod)))"

definition create_aggregated_summaries :: "dataframe \<Rightarrow> summary_data" where
  "create_aggregated_summaries filtered_df =
     \<lparr>global_yearly_totals =
        map (year_summary filtered_df) (sort (unique (map Year filtered_df))),
      top_producing_countries = production_totals Area filtered_df,
      top_produced_items = production_totals Item filtered_df\<rparr>"

subsection \<open>\<^verbatim>\<open>create_network_data\<close>\<close>

record node =
  node_id :: string
  node_index :: nat
  total_trade_volume :: float64

record link =
  link_source :: string
  link_target :: string
  link_value :: real
  link_item :: string

record network_data =
  nodes :: "node list"
  links :: "link list"

definition trade_2022 :: "dataframe \<Rightarrow> dataframe" where
  "trade_2022 filtered_df =
     filter (\<lambda>r. Year r = 2022 \<and>
                  Element r \<in> set [''Import quantity'', ''Export quantity''] \<and>
                  (case Value r of Some v \<Rightarrow> v > 100 | None \<Rightarrow> False))
       filtered_df"

text \<open>
  The nodes are made in the iteration order of a Python set, which the
  language leaves open; the model takes the order of first appearance.
\<close>

definition network_nodes :: "dataframe \<Rightarrow> node list" where
  "network_nodes t22 =
     map (\<lambda>(i, c). \<lparr>node_id = c, node_index = i,
                      total_trade_volume =
                        pd_sum (map Value (filter (\<lambda>r. Area r = c) t22))\<rparr>)
       (enumerate 0 (unique (map Area t22)))"

text \<open>The links of one item: the two nested loops over exporters and importers.\<close>

definition item_links :: "dataframe \<Rightarrow> string \<Rightarrow> link list" where
  "item_links t22 i =
     (let item_data = filter (\<lambda>r. Item r = i) t22;
          exporters = nlargest 5 num_value (filter (\<lambda>r. Element r = ''Export quantity'') item_data);
          importers = nlargest 5 num_value (filter (\<lambda>r. Element r = ''Import quantity'') item_data)
      in concat (map (\<lambda>exporter.
           concat (map (\<lambda>importer.
             if Area exporter \<noteq> Area importer
             then [\<lparr>link_source = Area exporter, link_target = Area importer,
                    link_value = min (num_value exporter) (num_value importer) * 0.1,
                    link_item = i\<rparr>]
             else []) importers)) exporters))"

definition network_links :: "dataframe \<Rightarrow> link list" where
  "network_links t22 = concat (map (item_links t22) (take 10 (unique (map Item t22))))"

definition create_network_data :: "dataframe \<Rightarrow> network_data" where
  "create_network_data filtered_df =
     (let t22 = trade_2022 filtered_df
      in \<lparr>nodes = network_nodes t22, links = network_links t22\<rparr>)"

subsection \<open>\<^verbatim>\<open>process_all\<close>\<close>

record outputs =
  out_timeseries :: "timeseries_record list"
  out_rankings :: "item_ranking list"
  out_trade_balance :: "trade_balance_entry list"
  out_summary :: summary_data
  out_network :: network_data

definition process_all :: "dataframe \<Rightarrow> outputs" where
  "process_all raw =
     (let filtered_df = load_filtered_df raw; kcal_df = load_kcal_df raw
      in \<lparr>out_timeseries = create_country_timeseries filtered_df kcal_df,
          out_rankings = create_production_rankings filtered_df,
          out_trade_balance = create_trade_balance filtered_df,
          out_summary = create_aggregated_summaries filtered_df,
          out_network = create_network_data filtered_df\<rparr>)"

section \<open>\<^verbatim>\<open>extend_timeseries.py\<close>\<close>

text \<open>
  The script reads the whole table (no area, year or item filter) and the
  timeseries file of an earlier run, changes the loaded entries in place and
  appends new ones.
\<close>

fun update_first :: "('a \<Rightarrow> bool) \<Rightarrow> ('a \<Rightarrow> 'a) \<Rightarrow> 'a list \<Rightarrow> 'a list" where
  "update_first P f [] = []"
| "update_first P f (x # xs) = (if P x then f x # xs else x # update_first P f xs)"

definition update_last :: "('a \<Rightarrow> bool) \<Rightarrow> ('a \<Rightarrow> 'a) \<Rightarrow> 'a list \<Rightarrow> 'a list" where
  "update_last P f xs = rev (update_first P f (rev xs))"

text \<open>
  \<^verbatim>\<open>lookup[(country, item)]\<close> is the last loaded entry of that key, the object
  that is in the list. The inner loop sets the metric in the first year
  dictionary of that year and breaks.
\<close>

definition set_metric ::
  "string \<Rightarrow> observation \<Rightarrow> timeseries_record list \<Rightarrow> timeseries_record list" where
  "set_metric metric row ts =
     (case Value row of
        None \<Rightarrow> ts
      | Some v \<Rightarrow>
          update_last (\<lambda>e. country e = Area row \<and> item e = Item row)
            (\<lambda>e. e\<lparr>data :=
                     update_first (\<lambda>yd. year yd = Year row)
                       (\<lambda>yd. yd\<lparr>metrics := AList.update metric v (metrics yd)\<rparr>)
                       (data e)\<rparr>)
            ts)"

text \<open>The year dictionaries of a new entry: one per row with a value.\<close>

definition new_year_data :: "string \<Rightarrow> dataframe \<Rightarrow> year_record list" where
  "new_year_data metric country_data =
     concat (map (\<lambda>row.
       case Value row of
         None \<Rightarrow> []
       | Some v \<Rightarrow>
           [\<lparr>year = Year row,
             metrics = [(''production'', 0), (''imports'', 0), (''domestic_supply'', 0),
                        (metric, v)]\<rparr>])
       country_data)"

definition new_entries ::
  "string \<Rightarrow> string \<Rightarrow> string \<Rightarrow> dataframe \<Rightarrow> timeseries_record list" where
  "new_entries metric u i item_data =
     concat (map (\<lambda>c.
       let year_data = new_year_data metric (filter (\<lambda>r. Area r = c) item_data)
       in if year_data \<noteq> []
          then [\<lparr>country = c, item = i, unit = u, data = sort_key year year_data\<rparr>]
          else [])
       (unique (map Area item_data)))"

text \<open>
  \<^verbatim>\<open>new_feed_items\<close> is a Python set; the model iterates it in the order of first
  appearance.
\<close>

definition extend_timeseries_with_feed_and_calories ::
  "dataframe \<Rightarrow> timeseries_record list \<Rightarrow> timeseries_record list" where
  "extend_timeseries_with_feed_and_calories df timeseries =
     (let feed_data = filter (\<lambda>r. Element r = ''Feed'') df;
          ts1 = fold (set_metric ''feed'') feed_data timeseries;
          calorie_data = filter (\<lambda>r. Element r = ''Food supply (kcal/capita/day)'') df;
          ts2 = fold (set_metric ''food_supply_kcal'') calorie_data ts1;
          new_feed_items =
            filter (\<lambda>i. i \<notin> set (map item timeseries)) (unique (map Item feed_data));
          ts3 = ts2 @
            concat (map (\<lambda>i. new_entries ''feed'' ''1000 t'' i
                                (filter (\<lambda>r. Item r = i) feed_data))
                      new_feed_items);
          grand_total_calories =
            filter (\<lambda>r. Element r = ''Food supply (kcal/capita/day)'' \<and>
                         Item r = ''Grand Total'') df
      in ts3 @ new_entries ''food_supply_kcal'' ''kcal/capita/day'' ''Grand Total''
                 grand_total_calories)"

section \<open>Notions the properties are stated with\<close>

text \<open>
  The year dictionaries the output holds for a country, an item and a year;
  the rows of a table in one \<open>(country, item, year, element)\<close> cell; the rows of
  one year group of the assembler.
\<close>

definition year_records_of :: "timeseries_record list \<Rightarrow> string \<Rightarrow> string \<Rightarrow> int \<Rightarrow> year_record list" where
  "year_records_of ts c i y =
     concat (map (\<lambda>e. filter (\<lambda>yr. year yr = y) (data e))
               (filter (\<lambda>e. country e = c \<and> item e = i) ts))"

definition year_group :: "dataframe \<Rightarrow> string \<Rightarrow> string \<Rightarrow> int \<Rightarrow> dataframe" where
  "year_group F c i y = group_rows Year y (group_rows (\<lambda>r. (Area r, Item r)) (c, i) F)"

definition cell_rows :: "dataframe \<Rightarrow> string \<Rightarrow> string \<Rightarrow> int \<Rightarrow> string \<Rightarrow> dataframe" where
  "cell_rows df c i y el =
     filter (\<lambda>r. Area r = c \<and> Item r = i \<and> Year r = y \<and> Element r = el) df"

definition relevant_rows :: "dataframe \<Rightarrow> bool" where
  "relevant_rows g = list_all (\<lambda>r. Element r \<in> set relevant_elements) g"

text \<open>Example tables.\<close>

definition soy_2022_first :: observation where
  "soy_2022_first = \<lparr>Area = ''Brazil'', Item = ''Soyabeans'', Element = ''Production'',
     Year = 2022, Unit = ''1000 t'', Value = Some 120\<rparr>"

definition soy_2022_second :: observation where
  "soy_2022_second = \<lparr>Area = ''Brazil'', Item = ''Soyabeans'', Element = ''Production'',
     Year = 2022, Unit = ''1000 t'', Value = Some 130\<rparr>"

definition soy_2022_protein :: observation where
  "soy_2022_protein = \<lparr>Area = ''Brazil'', Item = ''Soyabeans'',
     Element = ''Protein supply quantity (g/capita/day)'',
     Year = 2022, Unit = ''g/capita/day'', Value = Some 7.5\<rparr>"

definition soy_2022_kcal :: observation where
  "soy_2022_kcal = \<lparr>Area = ''Brazil'', Item = ''Soyabeans'',
     Element = ''Food supply (kcal/capita/day)'',
     Year = 2022, Unit = ''kcal/capita/day'', Value = Some 310.5\<rparr>"

definition soy_table :: dataframe where
  "soy_table = [soy_2022_first, soy_2022_protein, soy_2022_kcal]"

definition soy_2022_kcal_nan :: observation where
  "soy_2022_kcal_nan = \<lparr>Area = ''Brazil'', Item = ''Soyabeans'',
     Element = ''Food supply (kcal/capita/day)'',
     Year = 2022, Unit = ''kcal/capita/day'', Value = None\<rparr>"

definition soy_entry :: timeseries_record where
  "soy_entry = \<lparr>country = ''Brazil'', item = ''Soyabeans'', unit = ''t'',
     data = [\<lparr>year = 2022,
              metrics = [(''production'', 120000), (''protein_gpcd'', 7.5),
                         (''food_supply_kcal'', 310.5)]\<rparr>]\<rparr>"

definition world_wheat_kcal :: observation where
  "world_wheat_kcal = \<lparr>Area = ''World'', Item = ''Wheat and products'',
     Element = ''Food supply (kcal/capita/day)'',
     Year = 2022, Unit = ''kcal/capita/day'', Value = Some 310.5\<rparr>"

definition world_wheat_production :: observation where
  "world_wheat_production = \<lparr>Area = ''World'', Item = ''Wheat and products'',
     Element = ''Production'', Year = 2022, Unit = ''1000 t'', Value = Some 780000\<rparr>"

definition kenya_wheat_kcal :: observation where
  "kenya_wheat_kcal = \<lparr>Area = ''Kenya'', Item = ''Wheat and products'',
     Element = ''Food supply (kcal/capita/day)'',
     Year = 2022, Unit = ''kcal/capita/day'', Value = Some 310.5\<rparr>"

definition kenya_wheat_production :: observation where
  "kenya_wheat_production = \<lparr>Area = ''Kenya'', Item = ''Wheat and products'',
     Element = ''Production'', Year = 2022, Unit = ''1000 t'', Value = Some 300\<rparr>"

definition kenya_grand_total_2009 :: observation where
  "kenya_grand_total_2009 = \<lparr>Area = ''Kenya'', Item = ''Grand Total'',
     Element = ''Food supply (kcal/capita/day)'',
     Year = 2009, Unit = ''kcal/capita/day'', Value = Some 2100\<rparr>"

definition world_grand_total_2022 :: observation where
  "world_grand_total_2022 = \<lparr>Area = ''World'', Item = ''Grand Total'',
     Element = ''Food supply (kcal/capita/day)'',
     Year = 2022, Unit = ''kcal/capita/day'', Value = Some 2960\<rparr>"

definition kenya_fodder_feed :: observation where
  "kenya_fodder_feed = \<lparr>Area = ''Kenya'', Item = ''Fodder crops'',
     Element = ''Feed'', Year = 2022, Unit = ''1000 t'', Value = Some 12\<rparr>"


definition AGGREGATE_AREAS_list :: "string list" where
  "AGGREGATE_AREAS_list = [
     ''World'', ''Africa'', ''Americas'', ''Asia'', ''Europe'', ''Oceania'',
     ''Eastern Africa'', ''Middle Africa'', ''Northern Africa'', ''Southern Africa'',
     ''Western Africa'', ''Eastern Asia'', ''South-eastern Asia'', ''Southern Asia'',
     ''Western Asia'', ''Central America'', ''South America'', ''Northern America'',
     ''Eastern Europe'', ''Northern Europe'', ''Southern Europe'', ''Western Europe'',
     ''European Union'', ''European Union (27)'', ''European Union (28)'',
     ''Land Locked Developing Countries'', ''Least Developed Countries'',
     ''Low Income Food Deficit Countries'', ''Net Food Importing Developing Countries'',
     ''Small Island Developing States'']"

definition trade_row :: "string \<Rightarrow> string \<Rightarrow> string \<Rightarrow> real \<Rightarrow> observation" where
  "trade_row a i el v =
     \<lparr>Area = a, Item = i, Element = el, Year = 2022, Unit = ''1000 t'', Value = Some v\<rparr>"

definition ten_small_items :: dataframe where
  "ten_small_items =
     map (\<lambda>i. trade_row ''Kenya'' i ''Export quantity'' 200)
       [''Apples'', ''Bananas'', ''Barley'', ''Cassava'', ''Dates'', ''Grapes'',
        ''Lemons'', ''Millet'', ''Oats'', ''Onions'']"

definition wheat_trade :: dataframe where
  "wheat_trade =
     [trade_row ''Brazil'' ''Wheat and products'' ''Export quantity'' 50000,
      trade_row ''Kenya'' ''Wheat and products'' ''Import quantity'' 40000]"

text \<open>
  How the extend script may change a loaded year dictionary and a loaded
  entry: the year and every metric other than \<open>feed\<close> and \<open>food_supply_kcal\<close> stay
  as they are, and no other key appears.
\<close>

definition year_extends :: "year_record \<Rightarrow> year_record \<Rightarrow> bool" where
  "year_extends old new \<longleftrightarrow>
     year new = year old \<and>
     fst ` set (metrics new) \<subseteq> fst ` set (metrics old) \<union> {''feed'', ''food_supply_kcal''} \<and>
     (\<forall>k. k \<noteq> ''feed'' \<and> k \<noteq> ''food_supply_kcal'' \<longrightarrow>
          map_of (metrics new) k = map_of (metrics old) k)"

definition entry_extends :: "timeseries_record \<Rightarrow> timeseries_record \<Rightarrow> bool" where
  "entry_extends old new \<longleftrightarrow>
     country new = country old \<and> item new = item old \<and> unit new = unit old \<and>
     list_all2 year_extends (data old) (data new)"

definition kenya_wheat_feed :: observation where
  "kenya_wheat_feed = \<lparr>Area = ''Kenya'', Item = ''Wheat and products'',
     Element = ''Feed'', Year = 2022, Unit = ''1000 t'', Value = Some 8\<rparr>"

definition kenya_wheat_entry :: timeseries_record where
  "kenya_wheat_entry = \<lparr>country = ''Kenya'', item = ''Wheat and products'', unit = ''t'',
     data = [\<lparr>year = 2022, metrics = [(''imports'', 50000)]\<rparr>]\<rparr>"

definition mixed_table :: dataframe where
  "mixed_table = world_wheat_production # kenya_wheat_production # wheat_trade"



text \<open>\<open>1e308\<close>, a double, and \<open>1e400\<close>, which is beyond the doubles.\<close>

definition value_1e308 :: real where
  "value_1e308 =
     100000000000000000000000000000000000000000000000000000000000000000000000000000000000000000000000000000000000000000000000000000000000000000000000000000000000000000000000000000000000000000000000000000000000000000000000000000000000000000000000000000000000000000000000000000000000000000000000000000000000000000000"

definition value_1e400 :: real where
  "value_1e400 =
     10000000000000000000000000000000000000000000000000000000000000000000000000000000000000000000000000000000000000000000000000000000000000000000000000000000000000000000000000000000000000000000000000000000000000000000000000000000000000000000000000000000000000000000000000000000000000000000000000000000000000000000000000000000000000000000000000000000000000000000000000000000000000000000000000000000000000000"



section \<open>Properties of the assembler\<close>

subsection \<open>Dictionaries built by a loop of assignments\<close>

lemma set_groupby_keys: "set (groupby_keys key df) = key ` set df"
  by (simp add: groupby_keys_def)

lemma fold_update_map_of:
  "map_of (fold (\<lambda>r. AList.update (f r) (g r)) rows al) k =
     (if \<exists>r\<in>set rows. f r = k then Some (g (last (filter (\<lambda>r. f r = k) rows)))
      else map_of al k)"
proof (induction rows rule: rev_induct)
  case Nil
  then show ?case by simp
next
  case (snoc x xs)
  then show ?case by (auto simp: update_conv')
qed

lemma fold_update_keys:
  "fst ` set (fold (\<lambda>r. AList.update (f r) (g r)) rows al) = f ` set rows \<union> fst ` set al"
proof (induction rows rule: rev_induct)
  case Nil
  then show ?case by simp
next
  case (snoc x xs)
  then show ?case by (auto simp: dom_update)
qed

lemma fold_map_upd:
  "fold (\<lambda>r m. m(f r \<mapsto> g r)) rows m0 k =
     (if \<exists>r\<in>set rows. f r = k then Some (g (last (filter (\<lambda>r. f r = k) rows)))
      else m0 k)"
proof (induction rows rule: rev_induct)
  case Nil
  then show ?case by simp
next
  case (snoc x xs)
  then show ?case by auto
qed

lemma make_kcal_lookup_eq:
  "make_kcal_lookup K k =
     (if \<exists>r\<in>set K. (Area r, Item r, Year r) = k
      then Some (Value (last (filter (\<lambda>r. (Area r, Item r, Year r) = k) K)))
      else None)"
  unfolding make_kcal_lookup_def by (simp add: fold_map_upd)

lemma in_timeseries_iff:
  "e \<in> set (create_country_timeseries F K) \<longleftrightarrow>
     (\<exists>r\<in>set F. e = build_entry (make_kcal_lookup K) F (Area r, Item r))"
  by (auto simp: create_country_timeseries_def set_groupby_keys)

lemma country_build_entry: "country (build_entry L F k) = fst k"
  by (simp add: build_entry_def Let_def)

lemma item_build_entry: "item (build_entry L F k) = snd k"
  by (simp add: build_entry_def Let_def)

lemma year_build_year: "year (build_year L c i y g) = y"
  by (simp add: build_year_def Let_def)

lemma filter_eq_distinct:
  "distinct ks \<Longrightarrow> filter (\<lambda>k. k = k0) ks = (if k0 \<in> set ks then [k0] else [])"
  by (induction ks) auto

lemma filter_groupby_keys:
  "filter (\<lambda>k. k = k0) (groupby_keys key df) = (if k0 \<in> key ` set df then [k0] else [])"
  by (simp add: groupby_keys_def filter_eq_distinct)

lemma filter_year_data_build_entry:
  "filter (\<lambda>yr. year yr = y) (data (build_entry L F k)) =
     (if \<exists>r\<in>set F. (Area r, Item r) = k \<and> Year r = y
      then [build_year L (fst k) (snd k) y (year_group F (fst k) (snd k) y)] else [])"
proof -
  let ?grp = "group_rows (\<lambda>r. (Area r, Item r)) k F"
  let ?f = "\<lambda>y. build_year L (fst k) (snd k) y (group_rows Year y ?grp)"
  have "filter (\<lambda>yr. year yr = y) (data (build_entry L F k)) =
        sort_key year (map ?f (filter (\<lambda>y'. y' = y) (groupby_keys Year ?grp)))"
    by (simp add: build_entry_def Let_def filter_sort filter_map o_def year_build_year)
  also have "\<dots> = (if y \<in> Year ` set ?grp then [?f y] else [])"
    by (simp add: filter_groupby_keys)
  also have "y \<in> Year ` set ?grp \<longleftrightarrow> (\<exists>r\<in>set F. (Area r, Item r) = k \<and> Year r = y)"
    by (auto simp: group_rows_def)
  finally show ?thesis by (simp add: year_group_def)
qed

lemma year_records_of_timeseries:
  "year_records_of (create_country_timeseries F K) c i y =
     (if \<exists>r\<in>set F. Area r = c \<and> Item r = i \<and> Year r = y
      then [build_year (make_kcal_lookup K) c i y (year_group F c i y)] else [])"
proof -
  let ?L = "make_kcal_lookup K"
  have "filter (\<lambda>e. country e = c \<and> item e = i) (create_country_timeseries F K) =
        map (build_entry ?L F) (filter (\<lambda>k. k = (c, i)) (groupby_keys (\<lambda>r. (Area r, Item r)) F))"
    by (simp add: create_country_timeseries_def filter_map o_def country_build_entry
          item_build_entry prod_eq_iff)
  also have "\<dots> = (if \<exists>r\<in>set F. Area r = c \<and> Item r = i then [build_entry ?L F (c, i)] else [])"
    by (auto simp: filter_groupby_keys image_iff)
  finally show ?thesis
    by (auto simp: year_records_of_def filter_year_data_build_entry)
qed

lemma normalize_relevant_inverse:
  "e \<in> set relevant_elements \<Longrightarrow>
   map_of (map prod.swap element_mapping) (normalize_element_name e) = Some e"
  by (auto simp: relevant_elements_def normalize_element_name_def element_mapping_def)

lemma normalize_relevant_inj:
  assumes "e1 \<in> set relevant_elements" "e2 \<in> set relevant_elements"
  shows "normalize_element_name e1 = normalize_element_name e2 \<longleftrightarrow> e1 = e2"
proof
  assume eq: "normalize_element_name e1 = normalize_element_name e2"
  have "Some e1 = map_of (map prod.swap element_mapping) (normalize_element_name e1)"
    by (simp only: normalize_relevant_inverse[OF assms(1)])
  also have "\<dots> = Some e2"
    by (simp only: eq normalize_relevant_inverse[OF assms(2)])
  finally show "e1 = e2" by simp
next
  assume "e1 = e2"
  then show "normalize_element_name e1 = normalize_element_name e2" by simp
qed

lemma normalize_relevant_not_kcal:
  "e \<in> set relevant_elements \<Longrightarrow> normalize_element_name e \<noteq> ''food_supply_kcal''"
  by (auto simp: relevant_elements_def normalize_element_name_def element_mapping_def)

lemma load_filtered_df_iff:
  "r \<in> set (load_filtered_df raw) \<longleftrightarrow>
     r \<in> set raw \<and> Area r \<notin> AGGREGATE_AREAS \<and> year_in_range r \<and>
     Element r \<in> set relevant_elements \<and>
     \<not> str_contains (str_lower (Item r)) ''alcohol'' \<and>
     \<not> str_contains (str_lower (Item r)) ''non-food'' \<and> Value r \<noteq> None"
  by (auto simp: load_filtered_df_def dropna_Value_def pd_notna_def remove_aggregate_areas_def)

lemma load_kcal_df_iff:
  "r \<in> set (load_kcal_df raw) \<longleftrightarrow>
     r \<in> set raw \<and> Area r \<notin> AGGREGATE_AREAS \<and> year_in_range r \<and>
     Element r = kcal_element \<and> Value r \<noteq> None"
  by (auto simp: load_kcal_df_def dropna_Value_def pd_notna_def remove_aggregate_areas_def)

lemma relevant_rows_filtered: "relevant_rows (load_filtered_df raw)"
  by (simp add: relevant_rows_def list_all_iff load_filtered_df_iff)

lemma relevant_rows_year_group: "relevant_rows F \<Longrightarrow> relevant_rows (year_group F c i y)"
  by (simp add: relevant_rows_def list_all_iff year_group_def group_rows_def)

lemma fold_add_row_map_of:
  assumes "relevant_rows g" and "el \<in> set relevant_elements"
  shows "map_of (fold add_row g []) (normalize_element_name el) =
     (if \<exists>r\<in>set g. Element r = el
      then Some (scaled_value (last (filter (\<lambda>r. Element r = el) g))) else None)"
proof -
  have eq: "filter (\<lambda>r. normalize_element_name (Element r) = normalize_element_name el) g =
            filter (\<lambda>r. Element r = el) g"
    using assms by (intro filter_cong) (auto simp: relevant_rows_def list_all_iff normalize_relevant_inj)
  have ex: "(\<exists>r\<in>set g. normalize_element_name (Element r) = normalize_element_name el) \<longleftrightarrow>
            (\<exists>r\<in>set g. Element r = el)"
    using assms by (auto simp: relevant_rows_def list_all_iff normalize_relevant_inj)
  have "fold add_row g [] =
        fold (\<lambda>r. AList.update (normalize_element_name (Element r)) (scaled_value r)) g []"
    by (simp add: add_row_def[abs_def])
  then show ?thesis
    by (simp add: fold_update_map_of eq ex)
qed

lemma fold_add_row_keys:
  "fst ` set (fold add_row g []) = (\<lambda>r. normalize_element_name (Element r)) ` set g"
proof -
  have "fold add_row g [] =
        fold (\<lambda>r. AList.update (normalize_element_name (Element r)) (scaled_value r)) g []"
    by (simp add: add_row_def[abs_def])
  then show ?thesis by (simp add: fold_update_keys)
qed

lemma metrics_build_year_element:
  assumes "relevant_rows g" and "el \<in> set relevant_elements"
  shows "map_of (metrics (build_year L c i y g)) (normalize_element_name el) =
     (if \<exists>r\<in>set g. Element r = el
      then Some (scaled_value (last (filter (\<lambda>r. Element r = el) g))) else None)"
proof -
  have "map_of (metrics (build_year L c i y g)) (normalize_element_name el) =
        map_of (fold add_row g []) (normalize_element_name el)"
    using normalize_relevant_not_kcal[OF assms(2)]
    by (simp add: build_year_def Let_def update_conv' split: option.splits)
  then show ?thesis by (simp add: fold_add_row_map_of[OF assms])
qed

lemma metrics_build_year_kcal:
  assumes "relevant_rows g"
  shows "map_of (metrics (build_year L c i y g)) ''food_supply_kcal'' =
     (case L (c, i, y) of Some v \<Rightarrow> Some (float_or_zero v) | None \<Rightarrow> None)"
proof -
  have "''food_supply_kcal'' \<notin> fst ` set (fold add_row g [])"
  proof
    assume "''food_supply_kcal'' \<in> fst ` set (fold add_row g [])"
    then obtain r where r: "r \<in> set g" "normalize_element_name (Element r) = ''food_supply_kcal''"
      by (auto simp: fold_add_row_keys)
    from r(1) assms have "Element r \<in> set relevant_elements"
      by (simp add: relevant_rows_def list_all_iff)
    from normalize_relevant_not_kcal[OF this] r(2) show False by simp
  qed
  then have "map_of (fold add_row g []) ''food_supply_kcal'' = None"
    by (simp add: map_of_eq_None_iff)
  then show ?thesis
    by (simp add: build_year_def Let_def update_conv' split: option.splits)
qed

lemma kcal_key_build_year:
  assumes "relevant_rows g"
  shows "''food_supply_kcal'' \<in> fst ` set (metrics (build_year L c i y g)) \<longleftrightarrow> L (c, i, y) \<noteq> None"
proof -
  have "''food_supply_kcal'' \<in> fst ` set (metrics (build_year L c i y g)) \<longleftrightarrow>
        map_of (metrics (build_year L c i y g)) ''food_supply_kcal'' \<noteq> None"
    by (simp add: map_of_eq_None_iff)
  also have "\<dots> \<longleftrightarrow> L (c, i, y) \<noteq> None"
    by (simp add: metrics_build_year_kcal[OF assms] split: option.splits)
  finally show ?thesis .
qed

lemma filter_element_year_group:
  "filter (\<lambda>r. Element r = el) (year_group F c i y) = cell_rows F c i y el"
  by (auto simp: year_group_def group_rows_def cell_rows_def intro: filter_cong)

lemma year_records_of_memI:
  "e \<in> set ts \<Longrightarrow> yr \<in> set (data e) \<Longrightarrow> yr \<in> set (year_records_of ts (country e) (item e) (year yr))"
  by (auto simp: year_records_of_def)

subsection \<open>Rows of one cell\<close>

lemma year_record_of_cell:
  assumes "cell_rows (load_filtered_df raw) c i y el \<noteq> []"
  shows "year_records_of (timeseries_output raw) c i y =
           [build_year (make_kcal_lookup (load_kcal_df raw)) c i y
              (year_group (load_filtered_df raw) c i y)]"
proof -
  from assms obtain r where "r \<in> set (cell_rows (load_filtered_df raw) c i y el)"
    by (cases "cell_rows (load_filtered_df raw) c i y el") auto
  then have "\<exists>r\<in>set (load_filtered_df raw). Area r = c \<and> Item r = i \<and> Year r = y"
    by (auto simp: cell_rows_def)
  then show ?thesis
    by (simp add: timeseries_output_def year_records_of_timeseries)
qed

lemma cell_rows_relevant:
  assumes "cell_rows (load_filtered_df raw) c i y el \<noteq> []"
  shows "el \<in> set relevant_elements"
proof -
  from assms obtain r where "r \<in> set (cell_rows (load_filtered_df raw) c i y el)"
    by (cases "cell_rows (load_filtered_df raw) c i y el") auto
  then show ?thesis by (auto simp: cell_rows_def load_filtered_df_iff)
qed

lemma stored_metric_of_cell:
  assumes "cell_rows (load_filtered_df raw) c i y el \<noteq> []"
  shows "map_of (metrics (build_year L c i y (year_group (load_filtered_df raw) c i y)))
           (normalize_element_name el) =
         Some (scaled_value (last (cell_rows (load_filtered_df raw) c i y el)))"
proof -
  let ?F = "load_filtered_df raw"
  have rel: "relevant_rows (year_group ?F c i y)"
    by (rule relevant_rows_year_group[OF relevant_rows_filtered])
  have ex: "\<exists>r\<in>set (year_group ?F c i y). Element r = el"
  proof -
    from assms obtain r where "r \<in> set (cell_rows ?F c i y el)"
      by (cases "cell_rows ?F c i y el") auto
    then have "r \<in> set (year_group ?F c i y) \<and> Element r = el"
      by (auto simp: cell_rows_def year_group_def group_rows_def)
    then show ?thesis by blast
  qed
  show ?thesis
    using ex
    by (simp add: metrics_build_year_element[OF rel cell_rows_relevant[OF assms]]
          filter_element_year_group)
qed


lemma dup_filtered: "load_filtered_df [soy_2022_first, soy_2022_second] = [soy_2022_first, soy_2022_second]"
  by code_simp



subsection \<open>Rescaling\<close>

lemma last_cell_rows_stored:
  assumes r: "r \<in> set (load_filtered_df raw)"
    and l: "last (cell_rows (load_filtered_df raw) (Area r) (Item r) (Year r) (Element r)) = r"
  shows "\<exists>yr. year_records_of (timeseries_output raw) (Area r) (Item r) (Year r) = [yr] \<and>
           year yr = Year r \<and>
           map_of (metrics yr) (normalize_element_name (Element r)) = Some (scaled_value r)"
proof -
  from r have ne: "cell_rows (load_filtered_df raw) (Area r) (Item r) (Year r) (Element r) \<noteq> []"
    by (auto simp: cell_rows_def filter_empty_conv)
  show ?thesis
    using year_record_of_cell[OF ne] stored_metric_of_cell[OF ne] l
    by (simp add: year_build_year)
qed

lemma kcal_rows_stored:
  assumes k: "k \<in> set (load_kcal_df raw)"
    and l: "last (cell_rows (load_kcal_df raw) (Area k) (Item k) (Year k) kcal_element) = k"
    and yr: "yr \<in> set (year_records_of (timeseries_output raw) (Area k) (Item k) (Year k))"
  shows "map_of (metrics yr) ''food_supply_kcal'' = Some (float_or_zero (Value k))"
proof -
  let ?F = "load_filtered_df raw" and ?K = "load_kcal_df raw"
  let ?key = "(Area k, Item k, Year k)"
  from yr have yr_eq: "yr = build_year (make_kcal_lookup ?K) (Area k) (Item k) (Year k)
                         (year_group ?F (Area k) (Item k) (Year k))"
    by (simp add: timeseries_output_def year_records_of_timeseries split: if_splits)
  have "filter (\<lambda>r. (Area r, Item r, Year r) = ?key) ?K =
        cell_rows ?K (Area k) (Item k) (Year k) kcal_element"
    unfolding cell_rows_def by (rule filter_cong) (auto simp: load_kcal_df_iff)
  with k l have "make_kcal_lookup ?K ?key = Some (Value k)"
    by (auto simp: make_kcal_lookup_eq)
  then show ?thesis
    unfolding yr_eq
    by (simp add: metrics_build_year_kcal[OF relevant_rows_year_group[OF relevant_rows_filtered]])
qed

lemma soy_2022_first_filtered:
  "soy_2022_first \<in> set raw \<Longrightarrow> soy_2022_first \<in> set (load_filtered_df raw)"
proof -
  have "load_filtered_df [soy_2022_first] = [soy_2022_first]" by code_simp
  then have "soy_2022_first \<in> set (load_filtered_df [soy_2022_first])" by simp
  then show "soy_2022_first \<in> set raw \<Longrightarrow> soy_2022_first \<in> set (load_filtered_df raw)"
    by (simp add: load_filtered_df_iff)
qed

text \<open>
  Claim C1, amended. A row of the filtered table that is the last row of its
  (country, item, year, element) cell is stored under the normalized key of
  its element in the one year dictionary of its country, item and year: times
  1000 for Production, Import quantity, Export quantity, Domestic supply
  quantity, Feed and Processing, unchanged for the protein and fat elements.
  The injected \<open>food_supply_kcal\<close> is the unchanged value of the last calorie
  row of the country, item and year. A table that holds the Brazil soyabean
  production row of 2022 with value 120, as the last of its cell, yields the
  year dictionary of 2022 with production 120000.
\<close>

theorem rescaling_of_last_rows:
  "(r \<in> set (load_filtered_df raw) \<and>
    last (cell_rows (load_filtered_df raw) (Area r) (Item r) (Year r) (Element r)) = r \<and>
    Value r = Some v \<longrightarrow>
      (\<exists>yr. year_records_of (timeseries_output raw) (Area r) (Item r) (Year r) = [yr] \<and>
         year yr = Year r \<and>
         (Element r \<in> {''Production'', ''Import quantity'', ''Export quantity'',
                         ''Domestic supply quantity'', ''Feed'', ''Processing''} \<longrightarrow>
            map_of (metrics yr) (normalize_element_name (Element r)) = Some (v * 1000)) \<and>
         (Element r \<in> {''Protein supply quantity (t)'',
                         ''Protein supply quantity (g/capita/day)'',
                         ''Fat supply quantity (t)'',
                         ''Fat supply quantity (g/capita/day)''} \<longrightarrow>
            map_of (metrics yr) (normalize_element_name (Element r)) = Some v))) \<and>
   (k \<in> set (load_kcal_df raw) \<and>
    last (cell_rows (load_kcal_df raw) (Area k) (Item k) (Year k) kcal_element) = k \<and>
    Value k = Some w \<longrightarrow>
      (\<forall>yr\<in>set (year_records_of (timeseries_output raw) (Area k) (Item k) (Year k)).
         map_of (metrics yr) ''food_supply_kcal'' = Some w)) \<and>
   (soy_2022_first \<in> set raw \<and>
    last (cell_rows (load_filtered_df raw) ''Brazil'' ''Soyabeans'' 2022 ''Production'') =
      soy_2022_first \<longrightarrow>
      (\<exists>yr. year_records_of (timeseries_output raw) ''Brazil'' ''Soyabeans'' 2022 = [yr] \<and>
         year yr = 2022 \<and> map_of (metrics yr) ''production'' = Some 120000))"
proof (intro conjI impI)
  assume a: "r \<in> set (load_filtered_df raw) \<and>
    last (cell_rows (load_filtered_df raw) (Area r) (Item r) (Year r) (Element r)) = r \<and>
    Value r = Some v"
  then obtain yr where yr:
    "year_records_of (timeseries_output raw) (Area r) (Item r) (Year r) = [yr]"
    "year yr = Year r"
    "map_of (metrics yr) (normalize_element_name (Element r)) = Some (scaled_value r)"
    using last_cell_rows_stored[of r raw] by blast
  have mass: "Element r \<in> {''Production'', ''Import quantity'', ''Export quantity'',
                  ''Domestic supply quantity'', ''Feed'', ''Processing''} \<Longrightarrow>
              scaled_value r = v * 1000"
    using a by (auto simp: scaled_value_def mass_elements_kt_def float_or_zero_def)
  have other: "Element r \<in> {''Protein supply quantity (t)'',
                  ''Protein supply quantity (g/capita/day)'', ''Fat supply quantity (t)'',
                  ''Fat supply quantity (g/capita/day)''} \<Longrightarrow>
              scaled_value r = v"
    using a by (auto simp: scaled_value_def mass_elements_kt_def float_or_zero_def)
  show "\<exists>yr. year_records_of (timeseries_output raw) (Area r) (Item r) (Year r) = [yr] \<and>
         year yr = Year r \<and>
         (Element r \<in> {''Production'', ''Import quantity'', ''Export quantity'',
                         ''Domestic supply quantity'', ''Feed'', ''Processing''} \<longrightarrow>
            map_of (metrics yr) (normalize_element_name (Element r)) = Some (v * 1000)) \<and>
         (Element r \<in> {''Protein supply quantity (t)'',
                         ''Protein supply quantity (g/capita/day)'',
                         ''Fat supply quantity (t)'',
                         ''Fat supply quantity (g/capita/day)''} \<longrightarrow>
            map_of (metrics yr) (normalize_element_name (Element r)) = Some v)"
    using yr mass other by (intro exI[of _ yr]) simp
next
  assume a: "k \<in> set (load_kcal_df raw) \<and>
    last (cell_rows (load_kcal_df raw) (Area k) (Item k) (Year k) kcal_element) = k \<and>
    Value k = Some w"
  show "\<forall>yr\<in>set (year_records_of (timeseries_output raw) (Area k) (Item k) (Year k)).
         map_of (metrics yr) ''food_supply_kcal'' = Some w"
    using a kcal_rows_stored[of k raw] by (simp add: float_or_zero_def)
next
  assume a: "soy_2022_first \<in> set raw \<and>
    last (cell_rows (load_filtered_df raw) ''Brazil'' ''Soyabeans'' 2022 ''Production'') =
      soy_2022_first"
  have f: "Area soy_2022_first = ''Brazil''" "Item soy_2022_first = ''Soyabeans''"
    "Year soy_2022_first = 2022" "Element soy_2022_first = ''Production''"
    by (simp_all add: soy_2022_first_def)
  have n: "normalize_element_name ''Production'' = ''production''" by code_simp
  have s: "scaled_value soy_2022_first = 120000" by code_simp
  from a have "soy_2022_first \<in> set (load_filtered_df raw)"
    by (simp add: soy_2022_first_filtered)
  from last_cell_rows_stored[OF this] a
  show "\<exists>yr. year_records_of (timeseries_output raw) ''Brazil'' ''Soyabeans'' 2022 = [yr] \<and>
         year yr = 2022 \<and> map_of (metrics yr) ''production'' = Some 120000"
    by (simp add: f n s)
qed

theorem rescaling_of_last_rows_witness:
  "soy_2022_first \<in> set (load_filtered_df soy_table) \<and>
   soy_2022_protein \<in> set (load_filtered_df soy_table) \<and>
   soy_2022_kcal \<in> set (load_kcal_df soy_table) \<and>
   soy_2022_first \<in> set soy_table \<and>
   (\<exists>yr. year_records_of (timeseries_output soy_table) ''Brazil'' ''Soyabeans'' 2022 = [yr] \<and>
      year yr = 2022 \<and>
      map_of (metrics yr) ''production'' = Some 120000 \<and>
      map_of (metrics yr) ''protein_gpcd'' = Some 7.5 \<and>
      map_of (metrics yr) ''food_supply_kcal'' = Some 310.5)"
proof -
  have F: "load_filtered_df soy_table = [soy_2022_first, soy_2022_protein]" by code_simp
  have K: "load_kcal_df soy_table = [soy_2022_kcal]" by code_simp
  have f1: "Area soy_2022_first = ''Brazil''" "Item soy_2022_first = ''Soyabeans''"
    "Year soy_2022_first = 2022" "Element soy_2022_first = ''Production''"
    "Value soy_2022_first = Some 120"
    by (simp_all add: soy_2022_first_def)
  have f2: "Area soy_2022_protein = ''Brazil''" "Item soy_2022_protein = ''Soyabeans''"
    "Year soy_2022_protein = 2022"
    "Element soy_2022_protein = ''Protein supply quantity (g/capita/day)''"
    "Value soy_2022_protein = Some 7.5"
    by (simp_all add: soy_2022_protein_def)
  have f3: "Area soy_2022_kcal = ''Brazil''" "Item soy_2022_kcal = ''Soyabeans''"
    "Year soy_2022_kcal = 2022" "Value soy_2022_kcal = Some 310.5"
    by (simp_all add: soy_2022_kcal_def)
  have c1: "cell_rows [soy_2022_first, soy_2022_protein] ''Brazil'' ''Soyabeans'' 2022
              ''Production'' = [soy_2022_first]"
    by code_simp
  have c2: "cell_rows [soy_2022_first, soy_2022_protein] ''Brazil'' ''Soyabeans'' 2022
              ''Protein supply quantity (g/capita/day)'' = [soy_2022_protein]"
    by code_simp
  have c3: "cell_rows [soy_2022_kcal] ''Brazil'' ''Soyabeans'' 2022 kcal_element = [soy_2022_kcal]"
    by code_simp
  have n1: "normalize_element_name ''Production'' = ''production''" by code_simp
  have n2: "normalize_element_name ''Protein supply quantity (g/capita/day)'' = ''protein_gpcd''"
    by code_simp
  note T1 = rescaling_of_last_rows[of soy_2022_first soy_table 120 soy_2022_kcal "310.5"]
  note T2 = rescaling_of_last_rows[of soy_2022_protein soy_table "7.5" soy_2022_kcal "310.5"]
  from T1 obtain yr where yr:
    "year_records_of (timeseries_output soy_table) ''Brazil'' ''Soyabeans'' 2022 = [yr]"
    "year yr = 2022" "map_of (metrics yr) ''production'' = Some 120000"
    by (auto simp: F f1 c1 n1)
  from T2 yr(1) have p: "map_of (metrics yr) ''protein_gpcd'' = Some 7.5"
    by (auto simp: F f2 c2 n2)
  from T1 yr(1) have k: "map_of (metrics yr) ''food_supply_kcal'' = Some 310.5"
    by (auto simp: K f3 c3)
  have m: "soy_2022_first \<in> set soy_table" by (simp add: soy_table_def)
  show ?thesis
    using yr p k m by (simp add: F K)
qed

text \<open>
  Claim C1 as stated fails where a cell has two rows: the first Brazil
  soyabean production row of 2022 is a filtered row with value 120, and the
  year dictionary holds 130000, the value of the second row times 1000.
\<close>

theorem rescaling_every_row_counterexample:
  "soy_2022_first \<in> set (load_filtered_df [soy_2022_first, soy_2022_second]) \<and>
   Element soy_2022_first = ''Production'' \<and>
   Value soy_2022_first = Some 120 \<and>
   timeseries_output [soy_2022_first, soy_2022_second] =
     [\<lparr>country = ''Brazil'', item = ''Soyabeans'', unit = ''t'',
       data = [\<lparr>year = 2022, metrics = [(''production'', 130000)]\<rparr>]\<rparr>] \<and>
   (130000 :: real) \<noteq> 120 * 1000"
proof -
  have "timeseries_output [soy_2022_first, soy_2022_second] =
     [\<lparr>country = ''Brazil'', item = ''Soyabeans'', unit = ''t'',
       data = [\<lparr>year = 2022, metrics = [(''production'', 130000)]\<rparr>]\<rparr>]"
    by code_simp
  then show ?thesis
    by (simp add: dup_filtered) (simp add: soy_2022_first_def)
qed

subsection \<open>Calorie injection\<close>

lemma year_record_in_output:
  assumes e: "e \<in> set (timeseries_output raw)" and yr: "yr \<in> set (data e)"
  shows "yr = build_year (make_kcal_lookup (load_kcal_df raw)) (country e) (item e) (year yr)
                (year_group (load_filtered_df raw) (country e) (item e) (year yr)) \<and>
         (\<exists>r\<in>set (load_filtered_df raw).
            Area r = country e \<and> Item r = item e \<and> Year r = year yr)"
proof -
  from year_records_of_memI[OF e yr]
  have "yr \<in> set (year_records_of (timeseries_output raw) (country e) (item e) (year yr))" .
  then show ?thesis
    by (simp add: timeseries_output_def year_records_of_timeseries split: if_splits)
qed

lemma kcal_lookup_defined:
  "make_kcal_lookup K k \<noteq> None \<longleftrightarrow> (\<exists>r\<in>set K. (Area r, Item r, Year r) = k)"
  by (simp add: make_kcal_lookup_eq)

text \<open>
  Claim C2, amended. A year dictionary of the output has the key
  \<open>food_supply_kcal\<close> if and only if the source table has a row of that country,
  item and year whose element is \<open>Food supply (kcal/capita/day)\<close> and whose value
  is a number.
\<close>

theorem calorie_key_iff:
  assumes "e \<in> set (timeseries_output raw)" and "yr \<in> set (data e)"
  shows "''food_supply_kcal'' \<in> fst ` set (metrics yr) \<longleftrightarrow>
           (\<exists>r\<in>set raw. Area r = country e \<and> Item r = item e \<and> Year r = year yr \<and>
                Element r = ''Food supply (kcal/capita/day)'' \<and> Value r \<noteq> None)"
proof -
  let ?F = "load_filtered_df raw" and ?K = "load_kcal_df raw"
  let ?c = "country e" and ?i = "item e" and ?y = "year yr"
  from year_record_in_output[OF assms] obtain r0 where
    yr_eq: "yr = build_year (make_kcal_lookup ?K) ?c ?i ?y (year_group ?F ?c ?i ?y)" and
    r0: "r0 \<in> set ?F" "Area r0 = ?c" "Item r0 = ?i" "Year r0 = ?y"
    by blast
  from r0 have c: "?c \<notin> AGGREGATE_AREAS" and y: "2010 \<le> ?y" "?y \<le> 2022"
    by (auto simp: load_filtered_df_iff year_in_range_def)
  have "''food_supply_kcal'' \<in> fst ` set (metrics yr) \<longleftrightarrow>
        make_kcal_lookup ?K (?c, ?i, ?y) \<noteq> None"
    by (subst yr_eq)
       (rule kcal_key_build_year[OF relevant_rows_year_group[OF relevant_rows_filtered]])
  also have "\<dots> \<longleftrightarrow> (\<exists>r\<in>set ?K. Area r = ?c \<and> Item r = ?i \<and> Year r = ?y)"
    by (simp only: kcal_lookup_defined prod.inject)
  also have "\<dots> \<longleftrightarrow> (\<exists>r\<in>set raw. Area r = ?c \<and> Item r = ?i \<and> Year r = ?y \<and>
                Element r = ''Food supply (kcal/capita/day)'' \<and> Value r \<noteq> None)"
    using c y by (auto simp: load_kcal_df_iff year_in_range_def kcal_element_def)
  finally show ?thesis .
qed

lemma soy_table_output: "timeseries_output soy_table = [soy_entry]"
  by code_simp

theorem calorie_key_iff_witness:
  "soy_entry \<in> set (timeseries_output soy_table) \<and>
   hd (data soy_entry) \<in> set (data soy_entry) \<and>
   ''food_supply_kcal'' \<in> fst ` set (metrics (hd (data soy_entry))) \<and>
   (\<exists>r\<in>set soy_table. Area r = ''Brazil'' \<and> Item r = ''Soyabeans'' \<and> Year r = 2022 \<and>
       Element r = ''Food supply (kcal/capita/day)'' \<and> Value r \<noteq> None)"
proof -
  have e: "soy_entry \<in> set (timeseries_output soy_table)"
    by (simp add: soy_table_output)
  have yr: "hd (data soy_entry) \<in> set (data soy_entry)"
    by (simp add: soy_entry_def)
  have k: "''food_supply_kcal'' \<in> fst ` set (metrics (hd (data soy_entry)))"
    by (simp add: soy_entry_def)
  have f: "country soy_entry = ''Brazil''" "item soy_entry = ''Soyabeans''"
    "year (hd (data soy_entry)) = 2022"
    by (simp_all add: soy_entry_def)
  from calorie_key_iff[OF e yr] k
  have "\<exists>r\<in>set soy_table. Area r = ''Brazil'' \<and> Item r = ''Soyabeans'' \<and> Year r = 2022 \<and>
       Element r = ''Food supply (kcal/capita/day)'' \<and> Value r \<noteq> None"
    by (simp only: f simp_thms)
  with e yr k show ?thesis by blast
qed

text \<open>
  Claim C2 as stated fails for a calorie row without a numeric value: the
  source table has the calorie row of Brazil, soyabeans, 2022, and the year
  dictionary of that triple has no \<open>food_supply_kcal\<close>.
\<close>

theorem calorie_key_iff_counterexample:
  "timeseries_output [soy_2022_first, soy_2022_kcal_nan] =
     [\<lparr>country = ''Brazil'', item = ''Soyabeans'', unit = ''t'',
       data = [\<lparr>year = 2022, metrics = [(''production'', 120000)]\<rparr>]\<rparr>] \<and>
   soy_2022_kcal_nan \<in> set [soy_2022_first, soy_2022_kcal_nan] \<and>
   Area soy_2022_kcal_nan = ''Brazil'' \<and> Item soy_2022_kcal_nan = ''Soyabeans'' \<and>
   Year soy_2022_kcal_nan = 2022 \<and>
   Element soy_2022_kcal_nan = ''Food supply (kcal/capita/day)''"
proof -
  have "timeseries_output [soy_2022_first, soy_2022_kcal_nan] =
     [\<lparr>country = ''Brazil'', item = ''Soyabeans'', unit = ''t'',
       data = [\<lparr>year = 2022, metrics = [(''production'', 120000)]\<rparr>]\<rparr>]"
    by code_simp
  then show ?thesis by (simp add: soy_2022_kcal_nan_def)
qed

subsection \<open>Years\<close>

text \<open>
  Claim C5, amended. Every year dictionary of the timeseries that
  \<^verbatim>\<open>parse_enhanced.py\<close> produces has a year from 2010 to 2022.
\<close>

theorem timeseries_years_in_range:
  assumes "e \<in> set (timeseries_output raw)" and "yr \<in> set (data e)"
  shows "2010 \<le> year yr \<and> year yr \<le> 2022"
proof -
  from year_record_in_output[OF assms] obtain r0 where
    "r0 \<in> set (load_filtered_df raw)" "Year r0 = year yr"
    by blast
  then show ?thesis
    by (auto simp: load_filtered_df_iff year_in_range_def)
qed

theorem timeseries_years_in_range_witness:
  "soy_entry \<in> set (timeseries_output soy_table) \<and>
   hd (data soy_entry) \<in> set (data soy_entry) \<and>
   year (hd (data soy_entry)) = 2022 \<and>
   2010 \<le> year (hd (data soy_entry)) \<and> year (hd (data soy_entry)) \<le> 2022"
proof -
  have e: "soy_entry \<in> set (timeseries_output soy_table)"
    by (simp add: soy_table_output)
  have yr: "hd (data soy_entry) \<in> set (data soy_entry)"
    by (simp add: soy_entry_def)
  have y: "year (hd (data soy_entry)) = 2022"
    by (simp add: soy_entry_def)
  from timeseries_years_in_range[OF e yr] e yr y show ?thesis by blast
qed

subsection \<open>The World calorie row\<close>

lemma output_country_not_aggregate:
  "e \<in> set (timeseries_output raw) \<Longrightarrow> country e \<notin> AGGREGATE_AREAS"
  by (auto simp: timeseries_output_def in_timeseries_iff country_build_entry
        load_filtered_df_iff)

lemma World_aggregate: "''World'' \<in> AGGREGATE_AREAS"
  by (simp add: AGGREGATE_AREAS_def)

text \<open>
  Claim C3, amended. The output has no record of World, which is on the list
  of aggregate areas. For the same calorie row of an area that is not on the
  list: when it is the last calorie row of its area, item and year, and the
  filtered table has a row of that area, item and year, the output has one
  year dictionary for the area, \<open>Wheat and products\<close> and 2022, and it holds
  \<open>food_supply_kcal\<close> 310.5, not rescaled.
\<close>

theorem calorie_row_injected:
  "(\<forall>e\<in>set (timeseries_output raw). country e \<noteq> ''World'') \<and>
   (k \<in> set raw \<and> Area k \<notin> AGGREGATE_AREAS \<and> Item k = ''Wheat and products'' \<and>
    Element k = ''Food supply (kcal/capita/day)'' \<and> Year k = 2022 \<and>
    Value k = Some 310.5 \<and>
    last (cell_rows (load_kcal_df raw) (Area k) ''Wheat and products'' 2022 kcal_element) = k \<and>
    (\<exists>r\<in>set (load_filtered_df raw).
        Area r = Area k \<and> Item r = ''Wheat and products'' \<and> Year r = 2022) \<longrightarrow>
    (\<exists>yr. year_records_of (timeseries_output raw) (Area k) ''Wheat and products'' 2022 = [yr] \<and>
       year yr = 2022 \<and> map_of (metrics yr) ''food_supply_kcal'' = Some 310.5))"
proof (intro conjI impI ballI)
  fix e assume "e \<in> set (timeseries_output raw)"
  from output_country_not_aggregate[OF this] World_aggregate
  show "country e \<noteq> ''World''" by auto
next
  assume a: "k \<in> set raw \<and> Area k \<notin> AGGREGATE_AREAS \<and> Item k = ''Wheat and products'' \<and>
    Element k = ''Food supply (kcal/capita/day)'' \<and> Year k = 2022 \<and>
    Value k = Some 310.5 \<and>
    last (cell_rows (load_kcal_df raw) (Area k) ''Wheat and products'' 2022 kcal_element) = k \<and>
    (\<exists>r\<in>set (load_filtered_df raw).
        Area r = Area k \<and> Item r = ''Wheat and products'' \<and> Year r = 2022)"
  let ?ts = "timeseries_output raw"
  from a have one: "year_records_of ?ts (Area k) ''Wheat and products'' 2022 =
      [build_year (make_kcal_lookup (load_kcal_df raw)) (Area k) ''Wheat and products'' 2022
         (year_group (load_filtered_df raw) (Area k) ''Wheat and products'' 2022)]"
    (is "_ = [?yr]")
    by (simp add: timeseries_output_def year_records_of_timeseries)
  from a have k: "k \<in> set (load_kcal_df raw)"
    by (simp add: load_kcal_df_iff year_in_range_def kcal_element_def)
  have "?yr \<in> set (year_records_of ?ts (Area k) (Item k) (Year k))"
    using a one by simp
  from kcal_rows_stored[OF k _ this] a
  have "map_of (metrics ?yr) ''food_supply_kcal'' = Some 310.5"
    by (simp add: float_or_zero_def)
  with one show "\<exists>yr. year_records_of ?ts (Area k) ''Wheat and products'' 2022 = [yr] \<and>
       year yr = 2022 \<and> map_of (metrics yr) ''food_supply_kcal'' = Some 310.5"
    by (simp add: year_build_year)
qed

theorem calorie_row_injected_witness:
  "timeseries_output [kenya_wheat_production, kenya_wheat_kcal] =
     [\<lparr>country = ''Kenya'', item = ''Wheat and products'', unit = ''t'',
       data = [\<lparr>year = 2022,
                metrics = [(''production'', 300000), (''food_supply_kcal'', 310.5)]\<rparr>]\<rparr>] \<and>
   ''Kenya'' \<noteq> ''World'' \<and> ''Kenya'' \<notin> AGGREGATE_AREAS \<and>
   (\<exists>yr. year_records_of (timeseries_output [kenya_wheat_production, kenya_wheat_kcal])
           ''Kenya'' ''Wheat and products'' 2022 = [yr] \<and>
       year yr = 2022 \<and> map_of (metrics yr) ''food_supply_kcal'' = Some 310.5)"
proof -
  let ?raw = "[kenya_wheat_production, kenya_wheat_kcal]"
  have out: "timeseries_output ?raw =
     [\<lparr>country = ''Kenya'', item = ''Wheat and products'', unit = ''t'',
       data = [\<lparr>year = 2022,
                metrics = [(''production'', 300000), (''food_supply_kcal'', 310.5)]\<rparr>]\<rparr>]"
    by code_simp
  have F: "load_filtered_df ?raw = [kenya_wheat_production]" by code_simp
  have K: "load_kcal_df ?raw = [kenya_wheat_kcal]" by code_simp
  have c: "cell_rows [kenya_wheat_kcal] ''Kenya'' ''Wheat and products'' 2022 kcal_element =
             [kenya_wheat_kcal]"
    by code_simp
  have agg: "''Kenya'' \<notin> AGGREGATE_AREAS" by (simp add: AGGREGATE_AREAS_def)
  have f: "Area kenya_wheat_kcal = ''Kenya''" "Item kenya_wheat_kcal = ''Wheat and products''"
    "Element kenya_wheat_kcal = ''Food supply (kcal/capita/day)''"
    "Year kenya_wheat_kcal = 2022" "Value kenya_wheat_kcal = Some 310.5"
    by (simp_all add: kenya_wheat_kcal_def)
  have g: "Area kenya_wheat_production = ''Kenya''"
    "Item kenya_wheat_production = ''Wheat and products''" "Year kenya_wheat_production = 2022"
    by (simp_all add: kenya_wheat_production_def)
  from calorie_row_injected[of ?raw kenya_wheat_kcal]
  have "\<exists>yr. year_records_of (timeseries_output ?raw) ''Kenya'' ''Wheat and products'' 2022 = [yr] \<and>
       year yr = 2022 \<and> map_of (metrics yr) ''food_supply_kcal'' = Some 310.5"
    by (simp add: F K c agg f g)
  with out agg show ?thesis by simp
qed

text \<open>
  Claim C3 as stated fails: with the World calorie row, and a World
  production row of the same item and year beside it, the output is empty.
\<close>

theorem world_calorie_row_counterexample:
  "timeseries_output [world_wheat_production, world_wheat_kcal] = [] \<and>
   year_records_of (timeseries_output [world_wheat_production, world_wheat_kcal])
     ''World'' ''Wheat and products'' 2022 = []"
proof -
  have "timeseries_output [world_wheat_production, world_wheat_kcal] = []"
    by code_simp
  then show ?thesis by (simp add: year_records_of_def)
qed

subsection \<open>The extend script\<close>

text \<open>
  Claim C5 as stated fails for \<^verbatim>\<open>extend_timeseries.py\<close>, which has no year filter:
  a Grand Total calorie row of 2009 becomes a year dictionary of 2009.
\<close>

theorem extend_year_counterexample:
  "extend_timeseries_with_feed_and_calories [kenya_grand_total_2009] [] =
     [\<lparr>country = ''Kenya'', item = ''Grand Total'', unit = ''kcal/capita/day'',
       data = [\<lparr>year = 2009,
                metrics = [(''production'', 0), (''imports'', 0), (''domestic_supply'', 0),
                           (''food_supply_kcal'', 2100)]\<rparr>]\<rparr>] \<and>
   \<not> (2010 \<le> (2009 :: int))"
proof -
  have "extend_timeseries_with_feed_and_calories [kenya_grand_total_2009] [] =
     [\<lparr>country = ''Kenya'', item = ''Grand Total'', unit = ''kcal/capita/day'',
       data = [\<lparr>year = 2009,
                metrics = [(''production'', 0), (''imports'', 0), (''domestic_supply'', 0),
                           (''food_supply_kcal'', 2100)]\<rparr>]\<rparr>]"
    by code_simp
  then show ?thesis by simp
qed

text \<open>
  Claim C4 as stated fails for \<^verbatim>\<open>extend_timeseries.py\<close>, which has no area filter:
  the Grand Total calorie row of World becomes a timeseries entry of World.
\<close>

theorem extend_aggregate_counterexample:
  "extend_timeseries_with_feed_and_calories [world_grand_total_2022] [] =
     [\<lparr>country = ''World'', item = ''Grand Total'', unit = ''kcal/capita/day'',
       data = [\<lparr>year = 2022,
                metrics = [(''production'', 0), (''imports'', 0), (''domestic_supply'', 0),
                           (''food_supply_kcal'', 2960)]\<rparr>]\<rparr>] \<and>
   Area world_grand_total_2022 = ''World'' \<and> ''World'' \<in> AGGREGATE_AREAS"
proof -
  have "extend_timeseries_with_feed_and_calories [world_grand_total_2022] [] =
     [\<lparr>country = ''World'', item = ''Grand Total'', unit = ''kcal/capita/day'',
       data = [\<lparr>year = 2022,
                metrics = [(''production'', 0), (''imports'', 0), (''domestic_supply'', 0),
                           (''food_supply_kcal'', 2960)]\<rparr>]\<rparr>]"
    by code_simp
  then show ?thesis by (simp add: World_aggregate) (simp add: world_grand_total_2022_def)
qed

text \<open>
  Claim C8 as stated fails: a new entry of the extend script has the
  placeholders \<open>production\<close>, \<open>imports\<close> and \<open>domestic_supply\<close> in each year
  dictionary, and no \<open>exports\<close>. The feed row of an item that the loaded
  timeseries does not have gives the entry below.
\<close>

theorem extend_placeholders_counterexample:
  "extend_timeseries_with_feed_and_calories [kenya_fodder_feed] [] =
     [\<lparr>country = ''Kenya'', item = ''Fodder crops'', unit = ''1000 t'',
       data = [\<lparr>year = 2022,
                metrics = [(''production'', 0), (''imports'', 0), (''domestic_supply'', 0),
                           (''feed'', 12)]\<rparr>]\<rparr>] \<and>
   map_of [(''production'', 0), (''imports'', 0), (''domestic_supply'', 0), (''feed'', 12 :: real)]
     ''exports'' = None"
proof -
  have "extend_timeseries_with_feed_and_calories [kenya_fodder_feed] [] =
     [\<lparr>country = ''Kenya'', item = ''Fodder crops'', unit = ''1000 t'',
       data = [\<lparr>year = 2022,
                metrics = [(''production'', 0), (''imports'', 0), (''domestic_supply'', 0),
                           (''feed'', 12)]\<rparr>]\<rparr>]"
    by code_simp
  then show ?thesis by simp
qed

subsection \<open>Sums of floats\<close>

lemma overflow_bound_eq: "overflow_bound = 2 ^ 1024 - 2 ^ 970"
  by (simp add: overflow_bound_def)

lemma value_1e308_eq: "value_1e308 = 10 ^ 308"
  by (simp add: value_1e308_def)

lemma value_1e400_eq: "value_1e400 = 10 ^ 400"
  by (simp add: value_1e400_def)







subsection \<open>Trade balance\<close>

lemma trade_entry_key:
  "tb_country (trade_entry k grp) = fst k"
  "tb_item (trade_entry k grp) = fst (snd k)"
  "tb_year (trade_entry k grp) = snd (snd k)"
  by (simp_all add: trade_entry_def Let_def)

lemma in_trade_balance:
  assumes "e \<in> set (create_trade_balance F)"
  obtains k where
    "e = trade_entry k (group_rows (\<lambda>r. (Area r, Item r, Year r)) k
           (filter (\<lambda>r. Element r \<in> set [''Import quantity'', ''Export quantity'']) F))"
    "k \<in> (\<lambda>r. (Area r, Item r, Year r)) `
           set (filter (\<lambda>r. Element r \<in> set [''Import quantity'', ''Export quantity'']) F)"
  using assms by (auto simp: create_trade_balance_def Let_def groupby_keys_def)







subsection \<open>The area filter\<close>

lemma AGGREGATE_AREAS_set: "AGGREGATE_AREAS = set AGGREGATE_AREAS_list"
  by (simp add: AGGREGATE_AREAS_def AGGREGATE_AREAS_list_def)

lemma AGGREGATE_AREAS_distinct: "distinct AGGREGATE_AREAS_list"
  by (simp add: AGGREGATE_AREAS_list_def)

lemma card_AGGREGATE_AREAS: "card AGGREGATE_AREAS = 30"
  by (simp add: AGGREGATE_AREAS_set distinct_card[OF AGGREGATE_AREAS_distinct])
     (simp add: AGGREGATE_AREAS_list_def)

text \<open>
  Claim C6, amended. The area filter keeps a row if and only if its area is
  not an element of \<open>AGGREGATE_AREAS\<close>, a set of 30 names; the rows it removes
  are as many as the rows of such areas. The test is equality of strings:
  \<open>Southern Africa\<close> and \<open>Africa\<close> are in the set, \<open>South Africa\<close>, \<open>world\<close> and
  \<open>WORLD\<close> are not.
\<close>

theorem area_filter_exact:
  "(r \<in> set (remove_aggregate_areas df) \<longleftrightarrow> r \<in> set df \<and> Area r \<notin> AGGREGATE_AREAS) \<and>
   length df - length (remove_aggregate_areas df) =
     length (filter (\<lambda>r. Area r \<in> AGGREGATE_AREAS) df) \<and>
   card AGGREGATE_AREAS = 30 \<and>
   ''Southern Africa'' \<in> AGGREGATE_AREAS \<and> ''Africa'' \<in> AGGREGATE_AREAS \<and>
   ''South Africa'' \<notin> AGGREGATE_AREAS \<and> ''world'' \<notin> AGGREGATE_AREAS \<and>
   ''WORLD'' \<notin> AGGREGATE_AREAS"
proof -
  have "length df = length (filter (\<lambda>r. Area r \<notin> AGGREGATE_AREAS) df) +
          length (filter (\<lambda>r. Area r \<in> AGGREGATE_AREAS) df)"
    using sum_length_filter_compl[of "\<lambda>r. Area r \<in> AGGREGATE_AREAS" df] by simp
  then have len: "length df - length (remove_aggregate_areas df) =
     length (filter (\<lambda>r. Area r \<in> AGGREGATE_AREAS) df)"
    by (simp add: remove_aggregate_areas_def)
  have mem: "''Southern Africa'' \<in> AGGREGATE_AREAS" "''Africa'' \<in> AGGREGATE_AREAS"
    "''South Africa'' \<notin> AGGREGATE_AREAS" "''world'' \<notin> AGGREGATE_AREAS"
    "''WORLD'' \<notin> AGGREGATE_AREAS"
    by (simp_all add: AGGREGATE_AREAS_def)
  show ?thesis
    using len mem card_AGGREGATE_AREAS by (simp add: remove_aggregate_areas_def)
qed

text \<open>Claim C6 as stated fails in the size of the set: it has 30 names, not 25.\<close>

theorem aggregate_areas_size_counterexample:
  "card AGGREGATE_AREAS = 30 \<and> card AGGREGATE_AREAS \<noteq> 25"
  by (simp add: card_AGGREGATE_AREAS)

subsection \<open>Network links\<close>

lemma network_link_item:
  "l \<in> set (network_links t22) \<Longrightarrow> link_item l \<in> set (take 10 (unique (map Item t22)))"
  by (auto simp: network_links_def item_links_def Let_def split: if_splits)

text \<open>
  Claim C7. The links are made for the first ten distinct items of the 2022
  trade rows in table order, not for the ten items of highest volume. Eleven
  items: ten with one export row of 200 each, then wheat with an export of
  50000 and an import of 40000. Wheat has the highest volume and gets no
  link; with the wheat rows first the link of value \<open>0.1 * min 50000 40000\<close> is
  there.
\<close>

theorem links_follow_table_order:
  "load_filtered_df (ten_small_items @ wheat_trade) = ten_small_items @ wheat_trade \<and>
   links (create_network_data (load_filtered_df (ten_small_items @ wheat_trade))) = [] \<and>
   links (create_network_data (load_filtered_df (wheat_trade @ ten_small_items))) =
     [\<lparr>link_source = ''Brazil'', link_target = ''Kenya'', link_value = 4000,
       link_item = ''Wheat and products''\<rparr>]"
proof -
  have 1: "load_filtered_df (ten_small_items @ wheat_trade) = ten_small_items @ wheat_trade"
    by code_simp
  have 2: "links (create_network_data (load_filtered_df (ten_small_items @ wheat_trade))) = []"
    by code_simp
  have 3: "links (create_network_data (load_filtered_df (wheat_trade @ ten_small_items))) =
     [\<lparr>link_source = ''Brazil'', link_target = ''Kenya'', link_value = 4000,
       link_item = ''Wheat and products''\<rparr>]"
    by code_simp
  from 1 2 3 show ?thesis by blast
qed

subsection \<open>Loaded entries and new entries of the extend script\<close>

lemma year_extends_refl: "year_extends yd yd"
  by (auto simp: year_extends_def)

lemma year_extends_trans:
  assumes "year_extends a b" and "year_extends b c"
  shows "year_extends a c"
proof -
  let ?S = "{''feed'', ''food_supply_kcal''}"
  from assms have y: "year c = year a"
    by (simp add: year_extends_def)
  from assms have "fst ` set (metrics b) \<subseteq> fst ` set (metrics a) \<union> ?S"
    "fst ` set (metrics c) \<subseteq> fst ` set (metrics b) \<union> ?S"
    unfolding year_extends_def by blast+
  then have k: "fst ` set (metrics c) \<subseteq> fst ` set (metrics a) \<union> ?S"
    by blast
  from assms have m: "\<forall>k. k \<noteq> ''feed'' \<and> k \<noteq> ''food_supply_kcal'' \<longrightarrow>
      map_of (metrics c) k = map_of (metrics a) k"
    unfolding year_extends_def by metis
  from y k m show ?thesis
    unfolding year_extends_def by blast
qed

lemma year_extends_update:
  assumes "m = ''feed'' \<or> m = ''food_supply_kcal''"
  shows "year_extends yd (yd\<lparr>metrics := AList.update m v (metrics yd)\<rparr>)"
  using assms by (auto simp: year_extends_def dom_update update_conv')

lemma list_all2_update_first:
  assumes "\<forall>x. R x x" and "\<forall>x. R x (f x)"
  shows "list_all2 R xs (update_first P f xs)"
  using assms by (induction xs) (auto simp: list_all2_refl)

lemma list_all2_update_last:
  assumes "\<forall>x. R x x" and "\<forall>x. R x (f x)"
  shows "list_all2 R xs (update_last P f xs)"
proof -
  have "list_all2 R (rev xs) (update_first P f (rev xs))"
    using assms by (rule list_all2_update_first)
  then have "list_all2 R (rev (rev xs)) (rev (update_first P f (rev xs)))"
    by (simp only: list_all2_rev)
  then show ?thesis by (simp add: update_last_def)
qed

lemma entry_extends_refl: "entry_extends e e"
  by (simp add: entry_extends_def list_all2_refl year_extends_refl)

lemma list_all2_year_extends_trans:
  assumes "list_all2 year_extends xs ys" and "list_all2 year_extends ys zs"
  shows "list_all2 year_extends xs zs"
  using _ assms by (rule list_all2_trans) (rule year_extends_trans)

lemma entry_extends_trans:
  assumes "entry_extends a b" and "entry_extends b c"
  shows "entry_extends a c"
proof -
  from assms have "list_all2 year_extends (data a) (data c)"
    unfolding entry_extends_def by (blast intro: list_all2_year_extends_trans)
  with assms show ?thesis by (simp add: entry_extends_def)
qed

lemma list_all2_entry_extends_trans:
  assumes "list_all2 entry_extends xs ys" and "list_all2 entry_extends ys zs"
  shows "list_all2 entry_extends xs zs"
  using _ assms by (rule list_all2_trans) (rule entry_extends_trans)

lemma entry_extends_data:
  assumes "m = ''feed'' \<or> m = ''food_supply_kcal''"
  shows "entry_extends e
           (e\<lparr>data := update_first P (\<lambda>yd. yd\<lparr>metrics := AList.update m v (metrics yd)\<rparr>)
                        (data e)\<rparr>)"
proof -
  have "list_all2 year_extends (data e)
          (update_first P (\<lambda>yd. yd\<lparr>metrics := AList.update m v (metrics yd)\<rparr>) (data e))"
    by (rule list_all2_update_first)
       (simp_all add: year_extends_refl year_extends_update[OF assms])
  then show ?thesis by (simp add: entry_extends_def)
qed

lemma set_metric_extends:
  assumes "m = ''feed'' \<or> m = ''food_supply_kcal''"
  shows "list_all2 entry_extends ts (set_metric m row ts)"
proof (cases "Value row")
  case None
  then show ?thesis by (simp add: set_metric_def list_all2_refl entry_extends_refl)
next
  case (Some v)
  then show ?thesis
  proof -
    have "list_all2 entry_extends ts
            (update_last (\<lambda>e. country e = Area row \<and> item e = Item row)
               (\<lambda>e. e\<lparr>data :=
                     update_first (\<lambda>yd. year yd = Year row)
                       (\<lambda>yd. yd\<lparr>metrics := AList.update m v (metrics yd)\<rparr>)
                       (data e)\<rparr>) ts)"
      by (rule list_all2_update_last)
         (simp_all add: entry_extends_refl entry_extends_data[OF assms])
    with Some show ?thesis by (simp add: set_metric_def)
  qed
qed

lemma fold_set_metric_extends:
  assumes "m = ''feed'' \<or> m = ''food_supply_kcal''"
  shows "list_all2 entry_extends ts (fold (set_metric m) rows ts)"
proof (induction rows arbitrary: ts)
  case Nil
  then show ?case by (simp add: list_all2_refl entry_extends_refl)
next
  case (Cons row rows)
  have "list_all2 entry_extends ts (set_metric m row ts)"
    by (rule set_metric_extends[OF assms])
  moreover have "list_all2 entry_extends (set_metric m row ts)
                   (fold (set_metric m) rows (set_metric m row ts))"
    by (rule Cons.IH)
  ultimately have "list_all2 entry_extends ts
                     (fold (set_metric m) rows (set_metric m row ts))"
    by (rule list_all2_entry_extends_trans)
  then show ?case by simp
qed

lemma new_entries_shape:
  assumes "e \<in> set (new_entries m u i rows)" and "yr \<in> set (data e)"
  shows "\<exists>v. metrics yr =
           [(''production'', 0), (''imports'', 0), (''domestic_supply'', 0), (m, v)]"
  using assms
  by (auto simp: new_entries_def new_year_data_def Let_def split: if_splits option.splits)

lemma extend_split:
  "\<exists>upd new1 new2.
     extend_timeseries_with_feed_and_calories df ts = upd @ new1 @ new2 \<and>
     list_all2 entry_extends ts upd \<and>
     (\<forall>e\<in>set new1. \<forall>yr\<in>set (data e). \<exists>v. metrics yr =
        [(''production'', 0), (''imports'', 0), (''domestic_supply'', 0), (''feed'', v)]) \<and>
     (\<forall>e\<in>set new2. \<forall>yr\<in>set (data e). \<exists>v. metrics yr =
        [(''production'', 0), (''imports'', 0), (''domestic_supply'', 0),
         (''food_supply_kcal'', v)])"
proof -
  let ?feed = "filter (\<lambda>r. Element r = ''Feed'') df"
  let ?cal = "filter (\<lambda>r. Element r = ''Food supply (kcal/capita/day)'') df"
  let ?ts1 = "fold (set_metric ''feed'') ?feed ts"
  let ?ts2 = "fold (set_metric ''food_supply_kcal'') ?cal ?ts1"
  let ?items = "filter (\<lambda>i. i \<notin> set (map item ts)) (unique (map Item ?feed))"
  let ?new1 = "concat (map (\<lambda>i. new_entries ''feed'' ''1000 t'' i
                                (filter (\<lambda>r. Item r = i) ?feed)) ?items)"
  let ?new2 = "new_entries ''food_supply_kcal'' ''kcal/capita/day'' ''Grand Total''
                 (filter (\<lambda>r. Element r = ''Food supply (kcal/capita/day)'' \<and>
                              Item r = ''Grand Total'') df)"
  have eq: "extend_timeseries_with_feed_and_calories df ts = ?ts2 @ ?new1 @ ?new2"
    by (simp add: extend_timeseries_with_feed_and_calories_def Let_def)
  have "list_all2 entry_extends ts ?ts1"
    by (rule fold_set_metric_extends) simp
  moreover have "list_all2 entry_extends ?ts1 ?ts2"
    by (rule fold_set_metric_extends) simp
  ultimately have upd: "list_all2 entry_extends ts ?ts2"
    by (rule list_all2_entry_extends_trans)
  have n1: "\<forall>e\<in>set ?new1. \<forall>yr\<in>set (data e). \<exists>v. metrics yr =
        [(''production'', 0), (''imports'', 0), (''domestic_supply'', 0), (''feed'', v)]"
    using new_entries_shape[where m = "''feed''"] by fastforce
  have n2: "\<forall>e\<in>set ?new2. \<forall>yr\<in>set (data e). \<exists>v. metrics yr =
        [(''production'', 0), (''imports'', 0), (''domestic_supply'', 0),
         (''food_supply_kcal'', v)]"
    using new_entries_shape[where m = "''food_supply_kcal''"] by fastforce
  from eq upd n1 n2 show ?thesis by blast
qed

text \<open>
  Claim C8, amended. The output of the extend script is the loaded entries,
  in place and changed only in \<open>feed\<close> and \<open>food_supply_kcal\<close> (no metric is
  filled in with zero), followed by the new entries. Every year dictionary of
  a new entry has the three placeholders \<open>production\<close>, \<open>imports\<close> and
  \<open>domestic_supply\<close> with value 0, then \<open>feed\<close> or \<open>food_supply_kcal\<close>, and no other
  key: there is no \<open>exports\<close> placeholder.
\<close>

theorem extend_placeholders:
  "list_all2 entry_extends ts
     (take (length ts) (extend_timeseries_with_feed_and_calories df ts)) \<and>
   (\<forall>e\<in>set (drop (length ts) (extend_timeseries_with_feed_and_calories df ts)).
      \<forall>yr\<in>set (data e).
        (\<exists>m v. (m = ''feed'' \<or> m = ''food_supply_kcal'') \<and>
           metrics yr =
             [(''production'', 0), (''imports'', 0), (''domestic_supply'', 0), (m, v)]) \<and>
        map_of (metrics yr) ''production'' = Some 0 \<and>
        map_of (metrics yr) ''imports'' = Some 0 \<and>
        map_of (metrics yr) ''domestic_supply'' = Some 0 \<and>
        map_of (metrics yr) ''exports'' = None)"
proof -
  from extend_split[of df ts] obtain upd new1 new2 where
    eq: "extend_timeseries_with_feed_and_calories df ts = upd @ new1 @ new2" and
    upd: "list_all2 entry_extends ts upd" and
    n1: "\<forall>e\<in>set new1. \<forall>yr\<in>set (data e). \<exists>v. metrics yr =
        [(''production'', 0), (''imports'', 0), (''domestic_supply'', 0), (''feed'', v)]" and
    n2: "\<forall>e\<in>set new2. \<forall>yr\<in>set (data e). \<exists>v. metrics yr =
        [(''production'', 0), (''imports'', 0), (''domestic_supply'', 0),
         (''food_supply_kcal'', v)]"
    by blast
  from upd have len: "length upd = length ts"
    by (simp add: list_all2_lengthD)
  have t: "take (length ts) (extend_timeseries_with_feed_and_calories df ts) = upd"
    by (simp add: eq len)
  have d: "drop (length ts) (extend_timeseries_with_feed_and_calories df ts) = new1 @ new2"
    by (simp add: eq len)
  have new: "(\<exists>m v. (m = ''feed'' \<or> m = ''food_supply_kcal'') \<and>
           metrics yr =
             [(''production'', 0), (''imports'', 0), (''domestic_supply'', 0), (m, v)]) \<and>
        map_of (metrics yr) ''production'' = Some 0 \<and>
        map_of (metrics yr) ''imports'' = Some 0 \<and>
        map_of (metrics yr) ''domestic_supply'' = Some 0 \<and>
        map_of (metrics yr) ''exports'' = None"
    if "e \<in> set (new1 @ new2)" "yr \<in> set (data e)" for e yr
  proof -
    from that n1 n2 obtain m v where
      m: "m = ''feed'' \<or> m = ''food_supply_kcal''" and
      yr: "metrics yr = [(''production'', 0), (''imports'', 0), (''domestic_supply'', 0), (m, v)]"
      by fastforce
    from m yr show ?thesis by auto
  qed
  show ?thesis
    unfolding t d using upd new by blast
qed

theorem extend_placeholders_witness:
  "extend_timeseries_with_feed_and_calories [kenya_wheat_feed, kenya_fodder_feed]
       [kenya_wheat_entry] =
     [\<lparr>country = ''Kenya'', item = ''Wheat and products'', unit = ''t'',
       data = [\<lparr>year = 2022, metrics = [(''imports'', 50000), (''feed'', 8)]\<rparr>]\<rparr>,
      \<lparr>country = ''Kenya'', item = ''Fodder crops'', unit = ''1000 t'',
       data = [\<lparr>year = 2022,
                metrics = [(''production'', 0), (''imports'', 0), (''domestic_supply'', 0),
                           (''feed'', 12)]\<rparr>]\<rparr>] \<and>
   entry_extends kenya_wheat_entry
     (hd (extend_timeseries_with_feed_and_calories [kenya_wheat_feed, kenya_fodder_feed]
            [kenya_wheat_entry])) \<and>
   map_of (metrics (hd (data (last
     (extend_timeseries_with_feed_and_calories [kenya_wheat_feed, kenya_fodder_feed]
        [kenya_wheat_entry]))))) ''exports'' = None"
proof -
  let ?out = "extend_timeseries_with_feed_and_calories [kenya_wheat_feed, kenya_fodder_feed]
       [kenya_wheat_entry]"
  have out: "?out =
     [\<lparr>country = ''Kenya'', item = ''Wheat and products'', unit = ''t'',
       data = [\<lparr>year = 2022, metrics = [(''imports'', 50000), (''feed'', 8)]\<rparr>]\<rparr>,
      \<lparr>country = ''Kenya'', item = ''Fodder crops'', unit = ''1000 t'',
       data = [\<lparr>year = 2022,
                metrics = [(''production'', 0), (''imports'', 0), (''domestic_supply'', 0),
                           (''feed'', 12)]\<rparr>]\<rparr>]"
    by code_simp
  note T = extend_placeholders[of "[kenya_wheat_entry]" "[kenya_wheat_feed, kenya_fodder_feed]"]
  from T have "list_all2 entry_extends [kenya_wheat_entry] (take 1 ?out)"
    by simp
  then have a: "entry_extends kenya_wheat_entry (hd ?out)"
    by (simp add: out)
  from T have "\<forall>e\<in>set (drop 1 ?out). \<forall>yr\<in>set (data e). map_of (metrics yr) ''exports'' = None"
    by simp
  then have b: "map_of (metrics (hd (data (last ?out)))) ''exports'' = None"
    by (simp add: out)
  from out a b show ?thesis by simp
qed

subsection \<open>Aggregate areas in the outputs\<close>

lemma in_concat_map: "x \<in> set (concat (map f xs)) \<longleftrightarrow> (\<exists>y\<in>set xs. x \<in> set (f y))"
  by auto

lemma filtered_area_not_aggregate:
  "r \<in> set (load_filtered_df raw) \<Longrightarrow> Area r \<notin> AGGREGATE_AREAS"
  by (simp add: load_filtered_df_iff)

lemma set_nlargest: "set (nlargest n val df) \<subseteq> set df"
  using set_take_subset[of n "sort_key (\<lambda>r. - val r) df"] by (simp add: nlargest_def)

lemma set_nlargest_sums: "set (nlargest_sums n series) \<subseteq> set series"
  using set_take_subset[of n "sort_key (\<lambda>p. descending_key (snd p)) series"]
  by (simp add: nlargest_sums_def)

lemma fold_add_producer_countries:
  "map producer_country (fold add_producer rows ps) = map producer_country ps @ map Area rows"
  by (induction rows arbitrary: ps) (simp_all add: add_producer_def)

lemma ranking_country:
  assumes "rk \<in> set (create_production_rankings F)" and "p \<in> set (producers rk)"
  shows "producer_country p \<in> Area ` set F"
proof -
  let ?P = "filter (\<lambda>r. Element r = ''Production'' \<and> Year r = 2022) F"
  from assms(1) obtain i where
    "producers rk = fold add_producer (nlargest 20 num_value (group_rows Item i ?P)) []"
    by (auto simp: create_production_rankings_def Let_def)
  with assms(2) have "producer_country p \<in>
      set (map producer_country (fold add_producer (nlargest 20 num_value (group_rows Item i ?P)) []))"
    by simp
  then have "producer_country p \<in> Area ` set (nlargest 20 num_value (group_rows Item i ?P))"
    by (simp add: fold_add_producer_countries)
  with set_nlargest[of 20 num_value "group_rows Item i ?P"]
  show ?thesis by (auto simp: group_rows_def)
qed

lemma trade_balance_country:
  assumes "t \<in> set (create_trade_balance F)"
  shows "tb_country t \<in> Area ` set F"
proof -
  from assms obtain k where
    e: "t = trade_entry k (group_rows (\<lambda>r. (Area r, Item r, Year r)) k
           (filter (\<lambda>r. Element r \<in> set [''Import quantity'', ''Export quantity'']) F))" and
    k: "k \<in> (\<lambda>r. (Area r, Item r, Year r)) `
           set (filter (\<lambda>r. Element r \<in> set [''Import quantity'', ''Export quantity'']) F)"
    by (rule in_trade_balance)
  from e have "tb_country t = fst k" by (simp only: trade_entry_key)
  with k show ?thesis by auto
qed

lemma production_totals_key:
  assumes "p \<in> set (production_totals col F)"
  shows "fst p \<in> col ` set F"
proof -
  let ?prod = "filter (\<lambda>r. Element r = ''Production'') F"
  let ?sums = "map (\<lambda>k. (k, pd_sum (map Value (group_rows col k ?prod))))
                 (groupby_keys col ?prod)"
  from assms have "p \<in> set (nlargest_sums 30 ?sums)"
    by (simp add: production_totals_def Let_def)
  with set_nlargest_sums[of 30 ?sums] have "p \<in> set ?sums" by blast
  then show ?thesis by (auto simp: set_groupby_keys)
qed

lemma set_unique: "set (unique xs) = set xs"
  by (simp add: unique_def)

lemma node_country:
  assumes "n \<in> set (nodes (create_network_data F))"
  shows "node_id n \<in> Area ` set F"
proof -
  from assms obtain i c where
    "(i, c) \<in> set (enumerate 0 (unique (map Area (trade_2022 F))))" "node_id n = c"
    by (auto simp: create_network_data_def Let_def network_nodes_def)
  then have "node_id n \<in> set (unique (map Area (trade_2022 F)))"
    by (simp add: in_set_enumerate_eq) (metis nth_mem)
  then show ?thesis by (auto simp: set_unique trade_2022_def)
qed

lemma item_link_countries:
  assumes "l \<in> set (item_links t22 i)"
  shows "link_source l \<in> Area ` set t22 \<and> link_target l \<in> Area ` set t22"
proof -
  let ?E = "nlargest 5 num_value
              (filter (\<lambda>r. Element r = ''Export quantity'') (filter (\<lambda>r. Item r = i) t22))"
  let ?I = "nlargest 5 num_value
              (filter (\<lambda>r. Element r = ''Import quantity'') (filter (\<lambda>r. Item r = i) t22))"
  from assms obtain ex im where
    ex: "ex \<in> set ?E" and im: "im \<in> set ?I" and
    l: "l \<in> set (if Area ex \<noteq> Area im
                   then [\<lparr>link_source = Area ex, link_target = Area im,
                          link_value = min (num_value ex) (num_value im) * 0.1,
                          link_item = i\<rparr>]
                   else [])"
    unfolding item_links_def Let_def by (auto simp only: in_concat_map)
  from l have lc: "link_source l = Area ex" "link_target l = Area im"
    by (simp_all split: if_splits)
  from ex set_nlargest have "ex \<in> set t22" by fastforce
  moreover from im set_nlargest have "im \<in> set t22" by fastforce
  ultimately show ?thesis using lc by simp
qed

lemma link_countries:
  assumes "l \<in> set (links (create_network_data F))"
  shows "link_source l \<in> Area ` set F \<and> link_target l \<in> Area ` set F"
proof -
  from assms obtain i where "l \<in> set (item_links (trade_2022 F) i)"
    by (auto simp: create_network_data_def Let_def network_links_def)
  from item_link_countries[OF this] show ?thesis
    by (auto simp: trade_2022_def)
qed

lemma process_all_fields:
  "out_timeseries (process_all raw) = timeseries_output raw"
  "out_rankings (process_all raw) = create_production_rankings (load_filtered_df raw)"
  "out_trade_balance (process_all raw) = create_trade_balance (load_filtered_df raw)"
  "out_summary (process_all raw) = create_aggregated_summaries (load_filtered_df raw)"
  "out_network (process_all raw) = create_network_data (load_filtered_df raw)"
  by (simp_all add: process_all_def Let_def timeseries_output_def)

lemma process_all_cong:
  assumes "remove_aggregate_areas raw = remove_aggregate_areas raw'"
  shows "process_all raw = process_all raw'"
proof -
  have "load_filtered_df raw = load_filtered_df raw'"
    by (simp only: load_filtered_df_def assms)
  moreover have "load_kcal_df raw = load_kcal_df raw'"
    by (simp only: load_kcal_df_def assms)
  ultimately show ?thesis by (simp only: process_all_def)
qed

text \<open>
  Claim C4, amended. In a run of \<^verbatim>\<open>parse_enhanced.py\<close> the rows of aggregate
  areas leave no trace: two tables that agree on their other rows give the
  same five outputs, and no entry of the timeseries, producer of the
  rankings, entry of the trade balance, top producing country of the
  summary, node or link end of the network names an aggregate area.
\<close>

theorem no_aggregate_area_in_outputs:
  "(remove_aggregate_areas raw = remove_aggregate_areas raw' \<longrightarrow>
      process_all raw = process_all raw') \<and>
   (\<forall>e\<in>set (out_timeseries (process_all raw)). country e \<notin> AGGREGATE_AREAS) \<and>
   (\<forall>rk\<in>set (out_rankings (process_all raw)). \<forall>p\<in>set (producers rk).
      producer_country p \<notin> AGGREGATE_AREAS) \<and>
   (\<forall>t\<in>set (out_trade_balance (process_all raw)). tb_country t \<notin> AGGREGATE_AREAS) \<and>
   (\<forall>p\<in>set (top_producing_countries (out_summary (process_all raw))).
      fst p \<notin> AGGREGATE_AREAS) \<and>
   (\<forall>n\<in>set (nodes (out_network (process_all raw))). node_id n \<notin> AGGREGATE_AREAS) \<and>
   (\<forall>l\<in>set (links (out_network (process_all raw))).
      link_source l \<notin> AGGREGATE_AREAS \<and> link_target l \<notin> AGGREGATE_AREAS)"
proof -
  let ?F = "load_filtered_df raw"
  have F: "a \<notin> AGGREGATE_AREAS" if "a \<in> Area ` set ?F" for a
  proof -
    from that obtain r where "r \<in> set ?F" "a = Area r" by blast
    then show ?thesis by (simp only: filtered_area_not_aggregate not_False_eq_True)
  qed
  have 1: "remove_aggregate_areas raw = remove_aggregate_areas raw' \<longrightarrow>
      process_all raw = process_all raw'"
    by (intro impI) (rule process_all_cong)
  have 2: "\<forall>e\<in>set (out_timeseries (process_all raw)). country e \<notin> AGGREGATE_AREAS"
  proof
    fix e
    assume "e \<in> set (out_timeseries (process_all raw))"
    then show "country e \<notin> AGGREGATE_AREAS"
      unfolding process_all_fields by (rule output_country_not_aggregate)
  qed
  have 3: "\<forall>rk\<in>set (out_rankings (process_all raw)). \<forall>p\<in>set (producers rk).
      producer_country p \<notin> AGGREGATE_AREAS"
  proof (intro ballI)
    fix rk p
    assume "rk \<in> set (out_rankings (process_all raw))" "p \<in> set (producers rk)"
    then have "producer_country p \<in> Area ` set ?F"
      unfolding process_all_fields by (rule ranking_country)
    then show "producer_country p \<notin> AGGREGATE_AREAS" by (rule F)
  qed
  have 4: "\<forall>t\<in>set (out_trade_balance (process_all raw)). tb_country t \<notin> AGGREGATE_AREAS"
  proof
    fix t
    assume "t \<in> set (out_trade_balance (process_all raw))"
    then have "tb_country t \<in> Area ` set ?F"
      unfolding process_all_fields by (rule trade_balance_country)
    then show "tb_country t \<notin> AGGREGATE_AREAS" by (rule F)
  qed
  have 5: "\<forall>p\<in>set (top_producing_countries (out_summary (process_all raw))).
      fst p \<notin> AGGREGATE_AREAS"
  proof
    fix p
    assume "p \<in> set (top_producing_countries (out_summary (process_all raw)))"
    then have "p \<in> set (production_totals Area ?F)"
        unfolding process_all_fields by (simp add: create_aggregated_summaries_def)
    then have "fst p \<in> Area ` set ?F" by (rule production_totals_key)
    then show "fst p \<notin> AGGREGATE_AREAS" by (rule F)
  qed
  have 6: "\<forall>n\<in>set (nodes (out_network (process_all raw))). node_id n \<notin> AGGREGATE_AREAS"
  proof
    fix n
    assume "n \<in> set (nodes (out_network (process_all raw)))"
    then have "node_id n \<in> Area ` set ?F"
      unfolding process_all_fields by (rule node_country)
    then show "node_id n \<notin> AGGREGATE_AREAS" by (rule F)
  qed
  have 7: "\<forall>l\<in>set (links (out_network (process_all raw))).
      link_source l \<notin> AGGREGATE_AREAS \<and> link_target l \<notin> AGGREGATE_AREAS"
  proof
    fix l
    assume "l \<in> set (links (out_network (process_all raw)))"
    then have "link_source l \<in> Area ` set ?F \<and> link_target l \<in> Area ` set ?F"
      unfolding process_all_fields by (rule link_countries)
    then show "link_source l \<notin> AGGREGATE_AREAS \<and> link_target l \<notin> AGGREGATE_AREAS"
      using F by blast
  qed
  from 1 2 3 4 5 6 7 show ?thesis by (intro conjI)
qed

theorem no_aggregate_area_in_outputs_witness:
  "remove_aggregate_areas mixed_table = remove_aggregate_areas (tl mixed_table) \<and>
   process_all mixed_table = process_all (tl mixed_table) \<and>
   Area (hd mixed_table) = ''World'' \<and>
   map country (out_timeseries (process_all mixed_table)) = [''Brazil'', ''Kenya''] \<and>
   map (\<lambda>rk. map producer_country (producers rk)) (out_rankings (process_all mixed_table)) =
     [[''Kenya'']] \<and>
   map tb_country (out_trade_balance (process_all mixed_table)) = [''Brazil'', ''Kenya''] \<and>
   map fst (top_producing_countries (out_summary (process_all mixed_table))) = [''Kenya''] \<and>
   map node_id (nodes (out_network (process_all mixed_table))) = [''Brazil'', ''Kenya''] \<and>
   map (\<lambda>l. (link_source l, link_target l)) (links (out_network (process_all mixed_table))) =
     [(''Brazil'', ''Kenya'')] \<and>
   ''Brazil'' \<notin> AGGREGATE_AREAS \<and> ''Kenya'' \<notin> AGGREGATE_AREAS"
proof -
  note T = no_aggregate_area_in_outputs[of mixed_table "tl mixed_table"]
  have h: "remove_aggregate_areas mixed_table = remove_aggregate_areas (tl mixed_table)"
    by code_simp
  from T h have eq: "process_all mixed_table = process_all (tl mixed_table)"
    by blast
  have w: "Area (hd mixed_table) = ''World''" by code_simp
  have 1: "map country (out_timeseries (process_all mixed_table)) = [''Brazil'', ''Kenya'']"
    by code_simp
  have 2: "map (\<lambda>rk. map producer_country (producers rk))
             (out_rankings (process_all mixed_table)) = [[''Kenya'']]"
    by code_simp
  have 3: "map tb_country (out_trade_balance (process_all mixed_table)) = [''Brazil'', ''Kenya'']"
    by code_simp
  have 4: "map fst (top_producing_countries (out_summary (process_all mixed_table))) = [''Kenya'']"
    by code_simp
  have 5: "map node_id (nodes (out_network (process_all mixed_table))) = [''Brazil'', ''Kenya'']"
    by code_simp
  have 6: "map (\<lambda>l. (link_source l, link_target l))
             (links (out_network (process_all mixed_table))) = [(''Brazil'', ''Kenya'')]"
    by code_simp
  from T have "\<forall>e\<in>set (out_timeseries (process_all mixed_table)). country e \<notin> AGGREGATE_AREAS"
    by blast
  then have "\<forall>c\<in>set (map country (out_timeseries (process_all mixed_table))).
               c \<notin> AGGREGATE_AREAS"
    by simp
  then have a: "''Brazil'' \<notin> AGGREGATE_AREAS \<and> ''Kenya'' \<notin> AGGREGATE_AREAS"
    unfolding 1 by simp
  from h eq w 1 2 3 4 5 6 a show ?thesis by (intro conjI) simp_all
qed

subsection \<open>What the links are\<close>

text \<open>
  Apart from the choice of the items, the links are as claim C7 says: one per
  pair of a top-5 export row and a top-5 import row of the item with
  different areas, valued at a tenth of the smaller of the two values.
\<close>

lemma network_links_iff:
  "l \<in> set (network_links t22) \<longleftrightarrow>
     (\<exists>i\<in>set (take 10 (unique (map Item t22))).
      \<exists>ex\<in>set (nlargest 5 num_value
                  (filter (\<lambda>r. Element r = ''Export quantity'') (filter (\<lambda>r. Item r = i) t22))).
      \<exists>im\<in>set (nlargest 5 num_value
                  (filter (\<lambda>r. Element r = ''Import quantity'') (filter (\<lambda>r. Item r = i) t22))).
        Area ex \<noteq> Area im \<and>
        l = \<lparr>link_source = Area ex, link_target = Area im,
             link_value = min (num_value ex) (num_value im) * 0.1, link_item = i\<rparr>)"
proof -
  have "x \<in> set (if b then [y] else []) \<longleftrightarrow> b \<and> x = y" for x y :: link and b
    by auto
  then show ?thesis
    unfolding network_links_def item_links_def Let_def
    by (simp only: in_concat_map)
qed

end
